theory Spec2Isabelle
  imports Complex_Main
begin

section \<open>Python values used by app.py\<close>

text \<open>
  The theory embeds the two pure functions of \<^verbatim>\<open>src/app.py\<close>,
  \<^verbatim>\<open>_prepare_data_for_dxf\<close> and \<^verbatim>\<open>create_dxf_drawing\<close>, and the loop of
  \<^verbatim>\<open>generate_dxf_batch\<close> that drives them.

  Conventions of the embedding.
  \<^item> A \<open>char\<close> stands for the Unicode code point of the same number, U+0000 to U+00FF;
    records with other characters are outside the model. Upper-casing leaves that
    range, so a text line is a \<open>ustring\<close>, the list of its code points.
  \<^item> A Python float is a \<open>pyfloat\<close>: a finite value (a rational that is a binary64
    number), negative zero, the two infinities, or nan. Every arithmetic operation is
    the exact operation followed by rounding to binary64 (\<open>mk_float\<close>).
  \<^item> The integer defaults that the source mixes with floats (\<^verbatim>\<open>0\<close>, \<^verbatim>\<open>200\<close>, \<^verbatim>\<open>15\<close>,
    \<^verbatim>\<open>7850\<close>, \<^verbatim>\<open>1\<close>) are the floats of the same value: they compare, multiply,
    divide and format alike.
  \<^item> A dictionary is an association list in insertion order.
  \<^item> The calls into ezdxf (\<^verbatim>\<open>layers.new\<close>, \<^verbatim>\<open>dimstyles.new\<close>, \<^verbatim>\<open>add_lwpolyline\<close>,
    \<^verbatim>\<open>add_text\<close>, \<^verbatim>\<open>add_aligned_dim\<close>) append to a \<open>document\<close> value and do not
    fail; what ezdxf checks or writes by itself is not part of app.py.
\<close>

subsection \<open>Characters and strings\<close>

definition code :: "char \<Rightarrow> int" where
  "code c = of_char c"

definition is_digit :: "char \<Rightarrow> bool" where
  "is_digit c = (48 \<le> code c \<and> code c \<le> 57)"

definition digit_val :: "char \<Rightarrow> int" where
  "digit_val c = code c - 48"

text \<open>\<^verbatim>\<open>str.isspace\<close> on U+0000..U+00FF: what \<^verbatim>\<open>str.strip()\<close> removes.\<close>

definition is_space :: "char \<Rightarrow> bool" where
  "is_space c = (code c \<in> {9, 10, 11, 12, 13, 28, 29, 30, 31, 32, 133, 160})"

text \<open>What \<^verbatim>\<open>float()\<close> strips from both ends of its argument (U+001C..U+001F are not).\<close>

definition is_float_space :: "char \<Rightarrow> bool" where
  "is_float_space c = (code c \<in> {9, 10, 11, 12, 13, 32, 133, 160})"

definition strip_with :: "(char \<Rightarrow> bool) \<Rightarrow> string \<Rightarrow> string" where
  "strip_with sp s = rev (dropWhile sp (rev (dropWhile sp s)))"

definition py_strip :: "string \<Rightarrow> string" where
  "py_strip s = strip_with is_space s"

definition lower_char :: "char \<Rightarrow> char" where
  "lower_char c =
     (let n = code c
      in if (65 \<le> n \<and> n \<le> 90) \<or> (192 \<le> n \<and> n \<le> 214) \<or> (216 \<le> n \<and> n \<le> 222)
         then char_of (n + 32) else c)"

definition py_lower :: "string \<Rightarrow> string" where
  "py_lower s = map lower_char s"

text \<open>
  A string that may hold characters beyond U+00FF, as the list of its code points, and
  a string of the model read as one.
\<close>

type_synonym ustring = "int list"

definition ustr :: "string \<Rightarrow> ustring" where
  "ustr s = map code s"

text \<open>
  \<^verbatim>\<open>str.upper()\<close>: U+00DF becomes \<^verbatim>\<open>SS\<close>, U+00B5 becomes U+039C and U+00FF becomes
  U+0178.
\<close>

definition upper_char :: "char \<Rightarrow> ustring" where
  "upper_char c =
     (let n = code c
      in if (97 \<le> n \<and> n \<le> 122) \<or> (224 \<le> n \<and> n \<le> 246) \<or> (248 \<le> n \<and> n \<le> 254)
         then [n - 32]
         else if n = 223 then [83, 83]
         else if n = 181 then [924]
         else if n = 255 then [376]
         else [n])"

definition py_upper :: "string \<Rightarrow> ustring" where
  "py_upper s = concat (map upper_char s)"

definition py_replace :: "char \<Rightarrow> char \<Rightarrow> string \<Rightarrow> string" where
  "py_replace a b s = map (\<lambda>c. if c = a then b else c) s"

text \<open>The decimal digits of a non-negative integer, and \<^verbatim>\<open>str(i)\<close> for an integer.\<close>

function show_nat :: "int \<Rightarrow> string" where
  "show_nat n = (if n < 10 then [char_of (48 + n)] else show_nat (n div 10) @ [char_of (48 + n mod 10)])"
  by pat_completeness auto
termination
  by (relation "measure nat") auto

declare show_nat.simps [simp del]

definition show_int :: "int \<Rightarrow> string" where
  "show_int i = (if i < 0 then CHR ''-'' # show_nat (- i) else show_nat i)"

subsection \<open>Floats\<close>

datatype pyfloat = Fin rat | NegZero | PInf | NInf | NaN

definition is_nan :: "pyfloat \<Rightarrow> bool" where
  "is_nan x = (x = NaN)"

definition is_finite :: "pyfloat \<Rightarrow> bool" where
  "is_finite x = (case x of Fin _ \<Rightarrow> True | NegZero \<Rightarrow> True | _ \<Rightarrow> False)"

text \<open>The sign bit, and the value of a finite float.\<close>

definition is_neg :: "pyfloat \<Rightarrow> bool" where
  "is_neg x = (case x of Fin q \<Rightarrow> q < 0 | NegZero \<Rightarrow> True | NInf \<Rightarrow> True | _ \<Rightarrow> False)"

definition fval :: "pyfloat \<Rightarrow> rat" where
  "fval x = (case x of Fin q \<Rightarrow> q | _ \<Rightarrow> 0)"

definition is_zero :: "pyfloat \<Rightarrow> bool" where
  "is_zero x = (is_finite x \<and> fval x = 0)"

text \<open>The number of binary digits of a positive integer.\<close>

function bit_length :: "int \<Rightarrow> int" where
  "bit_length n = (if n \<le> 0 then 0 else 1 + bit_length (n div 2))"
  by pat_completeness auto
termination
  by (relation "measure nat") auto

declare bit_length.simps [simp del]

definition pow2 :: "int \<Rightarrow> rat" where
  "pow2 k = (if 0 \<le> k then 2 ^ nat k else 1 / 2 ^ nat (- k))"

definition pow10 :: "int \<Rightarrow> rat" where
  "pow10 k = (if 0 \<le> k then 10 ^ nat k else 1 / 10 ^ nat (- k))"

text \<open>
  The integer \<open>e\<close> with \<open>2^e \<le> m < 2^(e+1)\<close>, for a positive rational \<open>m\<close>: read
  off the integer part of \<open>m\<close>, or of \<open>1 / m\<close> when \<open>m < 1\<close>.
\<close>

definition ilog2 :: "rat \<Rightarrow> int" where
  "ilog2 m =
     (if 1 \<le> m then bit_length \<lfloor>m\<rfloor> - 1
      else let k = bit_length \<lfloor>1 / m\<rfloor> - 1
           in if m * pow2 k = 1 then - k else - k - 1)"

text \<open>Rounding a non-negative rational to the nearest integer, ties to even.\<close>

definition round_half_even :: "rat \<Rightarrow> int" where
  "round_half_even q =
     (let f = \<lfloor>q\<rfloor>; d = q - of_int f
      in if d < 1 / 2 then f else if 1 / 2 < d then f + 1 else if even f then f else f + 1)"

text \<open>
  Rounding a non-negative rational to binary64, ties to even: 53 significant bits, the
  least exponent that of the subnormal numbers; \<open>None\<close> is overflow.
\<close>

definition rnd_mag :: "rat \<Rightarrow> rat option" where
  "rnd_mag m =
     (if m = 0 then Some 0
      else let q = max (ilog2 m) (- 1022) - 52;
               r = of_int (round_half_even (m / pow2 q)) * pow2 q
           in if pow2 1024 \<le> r then None else Some r)"

definition mk_float :: "bool \<Rightarrow> rat \<Rightarrow> pyfloat" where
  "mk_float neg m =
     (case rnd_mag m of
        None \<Rightarrow> if neg then NInf else PInf
      | Some r \<Rightarrow> if r = 0 then (if neg then NegZero else Fin 0)
                  else Fin (if neg then - r else r))"

definition fneg :: "pyfloat \<Rightarrow> pyfloat" where
  "fneg x = (case x of Fin q \<Rightarrow> if q = 0 then NegZero else Fin (- q)
             | NegZero \<Rightarrow> Fin 0 | PInf \<Rightarrow> NInf | NInf \<Rightarrow> PInf | NaN \<Rightarrow> NaN)"

definition fmul :: "pyfloat \<Rightarrow> pyfloat \<Rightarrow> pyfloat" where
  "fmul x y =
     (if is_nan x \<or> is_nan y then NaN
      else if \<not> is_finite x \<or> \<not> is_finite y
      then (if is_zero x \<or> is_zero y then NaN
            else if is_neg x \<noteq> is_neg y then NInf else PInf)
      else mk_float (is_neg x \<noteq> is_neg y) (\<bar>fval x\<bar> * \<bar>fval y\<bar>))"

text \<open>Division by a positive constant (the source divides by 25, 1_000_000 and 1_000).\<close>

definition fdiv :: "pyfloat \<Rightarrow> rat \<Rightarrow> pyfloat" where
  "fdiv x d =
     (if is_finite x then mk_float (is_neg x) (\<bar>fval x\<bar> / d) else x)"

definition fsub :: "pyfloat \<Rightarrow> pyfloat \<Rightarrow> pyfloat" where
  "fsub x y =
     (if is_nan x \<or> is_nan y then NaN
      else if \<not> is_finite x then (if x = y then NaN else x)
      else if \<not> is_finite y then fneg y
      else let r = fval x - fval y
           in if r = 0 then (if is_neg x \<and> \<not> is_neg y then NegZero else Fin 0)
              else mk_float (r < 0) \<bar>r\<bar>)"

text \<open>Comparison: false as soon as an operand is nan; the two zeros are equal.\<close>

definition flt :: "pyfloat \<Rightarrow> pyfloat \<Rightarrow> bool" where
  "flt x y =
     (if is_nan x \<or> is_nan y then False
      else if x = NInf then y \<noteq> NInf
      else if y = PInf then x \<noteq> PInf
      else if x = PInf \<or> y = NInf then False
      else fval x < fval y)"

definition fle :: "pyfloat \<Rightarrow> pyfloat \<Rightarrow> bool" where
  "fle x y =
     (if is_nan x \<or> is_nan y then False
      else if x = NInf \<or> y = PInf then True
      else if x = PInf \<or> y = NInf then False
      else fval x \<le> fval y)"

text \<open>
  \<^verbatim>\<open>max(a, b, ...)\<close> keeps the first item and replaces it by a later one that is
  strictly greater; \<^verbatim>\<open>min\<close> likewise with strictly smaller.
\<close>

definition py_max :: "pyfloat \<Rightarrow> pyfloat list \<Rightarrow> pyfloat" where
  "py_max x xs = foldl (\<lambda>m item. if flt m item then item else m) x xs"

definition py_min :: "pyfloat \<Rightarrow> pyfloat list \<Rightarrow> pyfloat" where
  "py_min x xs = foldl (\<lambda>m item. if flt item m then item else m) x xs"

datatype exn = ValueError | OverflowError | TypeError | KeyError string

text \<open>\<^verbatim>\<open>int(x)\<close> of a float truncates towards zero and raises on nan and the infinities.\<close>

definition py_trunc :: "rat \<Rightarrow> int" where
  "py_trunc q = (if 0 \<le> q then \<lfloor>q\<rfloor> else - \<lfloor>- q\<rfloor>)"

definition py_int :: "pyfloat \<Rightarrow> exn + int" where
  "py_int x =
     (case x of
        NaN \<Rightarrow> Inl ValueError
      | PInf \<Rightarrow> Inl OverflowError
      | NInf \<Rightarrow> Inl OverflowError
      | NegZero \<Rightarrow> Inr 0
      | Fin q \<Rightarrow> Inr (py_trunc q))"

text \<open>A float from an integer (exact for the integers the source converts).\<close>

definition float_of_int :: "int \<Rightarrow> pyfloat" where
  "float_of_int i = mk_float (i < 0) (of_int \<bar>i\<bar>)"

subsection \<open>Formatting\<close>

definition zero_pad :: "nat \<Rightarrow> string \<Rightarrow> string" where
  "zero_pad w s = replicate (w - length s) CHR ''0'' @ s"

text \<open>The format \<^verbatim>\<open>{x:.pf}\<close>, correctly rounded with ties to even.\<close>

definition fmt_fixed :: "nat \<Rightarrow> pyfloat \<Rightarrow> string" where
  "fmt_fixed p x =
     (case x of
        NaN \<Rightarrow> ''nan''
      | PInf \<Rightarrow> ''inf''
      | NInf \<Rightarrow> ''-inf''
      | _ \<Rightarrow>
          (let n = round_half_even (\<bar>fval x\<bar> * 10 ^ p)
           in (if is_neg x then ''-'' else '''') @ show_nat (n div 10 ^ p) @
              (if p = 0 then '''' else CHR ''.'' # zero_pad p (show_nat (n mod 10 ^ p)))))"

text \<open>The format \<^verbatim>\<open>{n:02d}\<close>: zero padding to width 2, the sign counted in the width.\<close>

definition fmt_02d :: "int \<Rightarrow> string" where
  "fmt_02d i = (if i < 0 then CHR ''-'' # zero_pad 1 (show_nat (- i)) else zero_pad 2 (show_nat i))"

subsection \<open>Parsing a float\<close>

text \<open>
  Underscores are accepted between two digits only: each one must follow a digit and
  be followed by a digit.
\<close>

fun underscores_ok :: "char \<Rightarrow> string \<Rightarrow> bool" where
  "underscores_ok prev [] = (prev \<noteq> CHR ''_'')"
| "underscores_ok prev (c # cs) =
     (if c = CHR ''_'' then is_digit prev \<and> underscores_ok c cs
      else (if prev = CHR ''_'' then is_digit c else True) \<and> underscores_ok c cs)"

definition digits_val :: "string \<Rightarrow> int" where
  "digits_val ds = foldl (\<lambda>a c. 10 * a + digit_val c) 0 ds"

text \<open>The exponent part after \<^verbatim>\<open>e\<close> or \<^verbatim>\<open>E\<close>: an optional sign and at least one digit.\<close>

definition parse_exponent :: "string \<Rightarrow> int option" where
  "parse_exponent s =
     (let (neg, ds) = (case s of c # t \<Rightarrow> if c = CHR ''-'' then (True, t)
                                          else if c = CHR ''+'' then (False, t) else (False, s)
                       | [] \<Rightarrow> (False, s))
      in if ds = [] \<or> \<not> list_all is_digit ds then None
         else Some (if neg then - digits_val ds else digits_val ds))"

text \<open>
  An unsigned decimal: digits, an optional point and digits (one digit at least in
  all), an optional exponent; the whole string must be used.
\<close>

definition parse_decimal :: "string \<Rightarrow> rat option" where
  "parse_decimal s =
     (let ip = takeWhile is_digit s; r1 = dropWhile is_digit s;
          has_point = (r1 \<noteq> [] \<and> hd r1 = CHR ''.'');
          fp = (if has_point then takeWhile is_digit (tl r1) else []);
          r2 = (if has_point then dropWhile is_digit (tl r1) else r1);
          mant = of_int (digits_val (ip @ fp)) * pow10 (- int (length fp))
      in if ip = [] \<and> fp = [] then None
         else if r2 = [] then Some mant
         else if hd r2 = CHR ''e'' \<or> hd r2 = CHR ''E''
         then (case parse_exponent (tl r2) of None \<Rightarrow> None | Some e \<Rightarrow> Some (mant * pow10 e))
         else None)"

text \<open>\<^verbatim>\<open>float(s)\<close> for a string; \<open>None\<close> is ValueError.\<close>

definition py_float :: "string \<Rightarrow> pyfloat option" where
  "py_float s0 =
     (let s = strip_with is_float_space s0
      in if \<not> underscores_ok (CHR 0x00) s then None
         else let t = filter (\<lambda>c. c \<noteq> CHR ''_'') s;
                  neg = (t \<noteq> [] \<and> hd t = CHR ''-'');
                  u = (if t \<noteq> [] \<and> (hd t = CHR ''-'' \<or> hd t = CHR ''+'') then tl t else t);
                  l = py_lower u
              in if l = ''inf'' \<or> l = ''infinity'' then Some (if neg then NInf else PInf)
                 else if l = ''nan'' then Some NaN
                 else (case parse_decimal u of None \<Rightarrow> None | Some m \<Rightarrow> Some (mk_float neg m)))"

section \<open>Records and dictionaries\<close>

text \<open>
  What a raw record holds. A form field is a string. A spreadsheet is read with
  \<^verbatim>\<open>dtype=str\<close>, so a cell is a string or, when empty, the float nan. Integers and
  \<^verbatim>\<open>None\<close> are what a direct caller may pass besides; a raw record holds no finite float.
\<close>

datatype rawval = RStr string | RInt int | RNan | RNone

text \<open>\<^verbatim>\<open>str(v)\<close> and the truth value of \<^verbatim>\<open>v\<close>.\<close>

definition py_str :: "rawval \<Rightarrow> string" where
  "py_str v = (case v of RStr s \<Rightarrow> s | RInt i \<Rightarrow> show_int i | RNan \<Rightarrow> ''nan'' | RNone \<Rightarrow> ''None'')"

definition truthy :: "rawval \<Rightarrow> bool" where
  "truthy v = (case v of RStr s \<Rightarrow> s \<noteq> [] | RInt i \<Rightarrow> i \<noteq> 0 | RNan \<Rightarrow> True | RNone \<Rightarrow> False)"

type_synonym 'v dict = "(string \<times> 'v) list"

text \<open>\<^verbatim>\<open>d[k] = v\<close>: an existing key keeps its place, a new key goes last.\<close>

fun dict_set :: "string \<Rightarrow> 'v \<Rightarrow> 'v dict \<Rightarrow> 'v dict" where
  "dict_set k v [] = [(k, v)]"
| "dict_set k v (p # ps) = (if fst p = k then (k, v) # ps else p # dict_set k v ps)"

definition dict_update :: "'v dict \<Rightarrow> 'v dict \<Rightarrow> 'v dict" where
  "dict_update d other = foldl (\<lambda>acc (k, v). dict_set k v acc) d other"

definition COLUMN_MAPPING :: "string dict" where
  "COLUMN_MAPPING =
     [(''nome_arquivo'', ''part_name''),
      (''custom_filename'', ''part_name''),
      (''drawing_code'', ''part_name''),
      (''forma'', ''shape''),
      (''largura'', ''width''),
      (''altura'', ''height''),
      (''diametro'', ''diameter''),
      (''base_(cateto_1)'', ''rt_base''),
      (''altura_(cateto_2)'', ''rt_height''),
      (''base'', ''triangle_base''),
      (''habilitar_bloco'', ''include_text_info''),
      (''cotas'', ''include_dims''),
      (''qtd'', ''part_quantity''),
      (''espessura'', ''material_thickness'')]"

section \<open>Preparation: \<^verbatim>\<open>_prepare_data_for_dxf\<close>\<close>

subsection \<open>Step 1: key translation\<close>

definition clean_key :: "string \<Rightarrow> string" where
  "clean_key old_key = py_replace CHR '' '' CHR ''_'' (py_lower (py_strip old_key))"

definition internal_key :: "string \<Rightarrow> string" where
  "internal_key old_key =
     (case map_of COLUMN_MAPPING (clean_key old_key) of
        Some k \<Rightarrow> k | None \<Rightarrow> clean_key old_key)"

definition translate_keys :: "rawval dict \<Rightarrow> rawval dict" where
  "translate_keys raw_data =
     foldl (\<lambda>params (old_key, v). dict_set (internal_key old_key) v params) [] raw_data"

subsection \<open>Step 3: numeric coercion\<close>

definition to_float :: "rawval \<Rightarrow> pyfloat \<Rightarrow> pyfloat" where
  "to_float v dflt =
     (case v of
        RNone \<Rightarrow> dflt
      | _ \<Rightarrow> (case py_float (py_replace CHR '','' CHR ''.'' (py_str v)) of
                None \<Rightarrow> dflt
              | Some x \<Rightarrow> x))"

definition numeric_keys :: "string list" where
  "numeric_keys =
     [''width'', ''height'', ''diameter'', ''material_thickness'', ''material_density'',
      ''part_quantity'']"

definition numeric_default :: "string \<Rightarrow> pyfloat" where
  "numeric_default k = (if k = ''part_quantity'' then Fin 1 else Fin 0)"

text \<open>
  The loop of step 3 overwrites, in the dictionary, each numeric key that is present.
  The model keeps the floats in a dictionary of their own: after the loop a numeric
  key is read from it, every other key from the translated entries.
\<close>

definition coerce_numeric :: "rawval dict \<Rightarrow> pyfloat dict" where
  "coerce_numeric es =
     List.map_filter
       (\<lambda>k. map_option (\<lambda>v. (k, to_float v (numeric_default k))) (map_of es k))
       numeric_keys"

subsection \<open>Step 4: styles\<close>

record style_config =
  contour_color :: int
  holes_color :: int
  text_color :: int
  include_dims :: bool
  char_height :: pyfloat
  dim_distance :: pyfloat
  text_insert_point :: "pyfloat \<times> pyfloat"

record params =
  entries :: "rawval dict"
  numeric :: "pyfloat dict"
  styles :: style_config
  text_lines :: "ustring list option"

text \<open>\<^verbatim>\<open>params.get(k, d)\<close>: for a numeric key after step 3, and for any other key.\<close>

definition get_num :: "pyfloat dict \<Rightarrow> string \<Rightarrow> pyfloat \<Rightarrow> pyfloat" where
  "get_num nums k dflt = (case map_of nums k of Some x \<Rightarrow> x | None \<Rightarrow> dflt)"

definition get_raw :: "rawval dict \<Rightarrow> string \<Rightarrow> rawval \<Rightarrow> rawval" where
  "get_raw es k dflt = (case map_of es k of Some v \<Rightarrow> v | None \<Rightarrow> dflt)"

definition calc_max_dim :: "pyfloat dict \<Rightarrow> pyfloat" where
  "calc_max_dim nums =
     (let m = py_max (get_num nums ''width'' (Fin 0))
                [get_num nums ''height'' (Fin 0), get_num nums ''diameter'' (Fin 0)]
      in if flt (Fin 0) m then m else Fin 200)"

definition calc_char_height :: "pyfloat \<Rightarrow> pyfloat" where
  "calc_char_height max_dim = py_min (py_max (fdiv max_dim 25) [Fin 5]) [Fin 35]"

text \<open>\<^verbatim>\<open>int(to_float(params.get(k, d)))\<close>; \<^verbatim>\<open>int\<close> raises on nan and the infinities.\<close>

definition color_of :: "rawval dict \<Rightarrow> string \<Rightarrow> int \<Rightarrow> exn + int" where
  "color_of es k dflt = py_int (to_float (get_raw es k (RInt dflt)) (Fin 0))"

definition truthy_tokens :: "string list" where
  "truthy_tokens = [''true'', ''on'', ''1'', ''sim'']"

definition flag_of :: "rawval dict \<Rightarrow> string \<Rightarrow> bool" where
  "flag_of es k = (py_lower (py_str (get_raw es k (RStr []))) \<in> set truthy_tokens)"

subsection \<open>Step 5: the text block\<close>

text \<open>The body of the \<^verbatim>\<open>try\<close>: \<open>Inl\<close> is the exception that the \<^verbatim>\<open>except\<close> clause catches.\<close>

definition calc_area :: "rawval dict \<Rightarrow> pyfloat dict \<Rightarrow> pyfloat" where
  "calc_area es nums =
     (if map_of es ''shape'' = Some (RStr ''rectangle'')
      then fmul (get_num nums ''width'' (Fin 0)) (get_num nums ''height'' (Fin 0))
      else Fin 0)"

definition weight_lines :: "rawval dict \<Rightarrow> pyfloat dict \<Rightarrow> exn + ustring list" where
  "weight_lines es nums =
     (let area_mm2 = calc_area es nums
      in if fle area_mm2 (Fin 0) then Inl ValueError
         else
           let volume_m3 = fmul (fdiv area_mm2 1000000)
                             (fdiv (get_num nums ''material_thickness'' (Fin 0)) 1000);
               unit_weight_kg = fmul volume_m3 (get_num nums ''material_density'' (Fin 7850))
           in case py_int (get_num nums ''part_quantity'' (Fin 1)) of
                Inl e \<Rightarrow> Inl e
              | Inr quantity \<Rightarrow>
                  let total_weight_kg = fmul unit_weight_kg (float_of_int quantity)
                  in Inr
                    [py_upper (py_str (get_raw es ''part_name'' (RStr []))),
                     ustr (''Espessura: '' @
                       fmt_fixed 2 (get_num nums ''material_thickness'' (Fin 0)) @
                       '' mm  (Qtd: '' @ fmt_02d quantity @ ''x)''),
                     ustr (py_replace CHR ''.'' CHR '',''
                       (''Peso Unitario: '' @ fmt_fixed 3 unit_weight_kg @ '' Kg'')),
                     ustr (py_replace CHR ''.'' CHR '',''
                       (''Peso Total: '' @ fmt_fixed 3 total_weight_kg @ '' Kg''))])"

definition error_lines :: "rawval dict \<Rightarrow> ustring list" where
  "error_lines es =
     [py_upper (py_str (get_raw es ''part_name'' (RStr []))), ustr ''ERRO NO CALCULO DE PESO'']"

definition calc_text_lines :: "rawval dict \<Rightarrow> pyfloat dict \<Rightarrow> ustring list option" where
  "calc_text_lines es nums =
     (if flag_of es ''include_text_info''
      then (case weight_lines es nums of
              Inr ls \<Rightarrow> Some ls
            | Inl e \<Rightarrow> Some (error_lines es))
      else None)"

subsection \<open>The whole function\<close>

datatype prep_error = MissingRequired

text \<open>
  The result: \<open>Inl e\<close> when the exception \<open>e\<close> leaves the function, \<open>Inr (Inl MissingRequired)\<close>
  for the return \<^verbatim>\<open>(None, "Dados insuficientes: ...")\<close>, \<open>Inr (Inr p)\<close> for \<^verbatim>\<open>(params, None)\<close>.
\<close>

definition prepare_data_for_dxf :: "rawval dict \<Rightarrow> exn + (prep_error + params)" where
  "prepare_data_for_dxf raw_data =
     (let es = translate_keys raw_data
      in if \<not> truthy (get_raw es ''part_name'' RNone) then Inr (Inl MissingRequired)
         else if \<not> truthy (get_raw es ''shape'' RNone) then Inr (Inl MissingRequired)
         else
           let nums = coerce_numeric es;
               ch = calc_char_height (calc_max_dim nums)
           in case color_of es ''contour_color'' 7 of
                Inl e \<Rightarrow> Inl e
              | Inr cc \<Rightarrow>
             (case color_of es ''holes_color'' 1 of
                Inl e \<Rightarrow> Inl e
              | Inr hc \<Rightarrow>
             (case color_of es ''text_color'' 2 of
                Inl e \<Rightarrow> Inl e
              | Inr tc \<Rightarrow>
                  Inr (Inr \<lparr>entries = es, numeric = nums,
                     styles = \<lparr>contour_color = cc, holes_color = hc, text_color = tc,
                       include_dims = flag_of es ''include_dims'',
                       char_height = ch,
                       dim_distance = py_max (Fin 15) [fmul ch (Fin 3)],
                       text_insert_point = (Fin 0, fmul (fneg ch) (Fin 2))\<rparr>,
                     text_lines = calc_text_lines es nums\<rparr>))))"

section \<open>Drawing: \<^verbatim>\<open>create_dxf_drawing\<close>\<close>

subsection \<open>The document\<close>

text \<open>
  What app.py adds to the document that \<^verbatim>\<open>ezdxf.new('R2000')\<close> returns: layers,
  dimension styles and the entities of the model space, each in the order of the calls.
\<close>

record layer =
  layer_name :: string
  layer_color :: int

record dimstyle =
  dimstyle_name :: string
  dimtxt :: pyfloat

type_synonym point = "pyfloat \<times> pyfloat"

datatype entity =
    LWPolyline (points: "point list") (closed: bool) (on_layer: string)
  | Text ustring string pyfloat point
  | AlignedDim point point pyfloat string string

text \<open>
  \<open>Text t l h p\<close> is the text \<open>t\<close> on layer \<open>l\<close> with height \<open>h\<close> inserted at \<open>p\<close>;
  \<open>AlignedDim p1 p2 d l s\<close> is the aligned dimension from \<open>p1\<close> to \<open>p2\<close> at distance \<open>d\<close>,
  on layer \<open>l\<close> with dimension style \<open>s\<close>.
\<close>

record document =
  layers :: "layer list"
  dimstyles :: "dimstyle list"
  entities :: "entity list"

definition new_document :: document where
  "new_document = \<lparr>layers = [], dimstyles = [], entities = []\<rparr>"

definition new_layer :: "string \<Rightarrow> int \<Rightarrow> document \<Rightarrow> document" where
  "new_layer name color doc = doc\<lparr>layers := layers doc @ [\<lparr>layer_name = name, layer_color = color\<rparr>]\<rparr>"

definition new_dimstyle :: "string \<Rightarrow> pyfloat \<Rightarrow> document \<Rightarrow> document" where
  "new_dimstyle name h doc =
     doc\<lparr>dimstyles := dimstyles doc @ [\<lparr>dimstyle_name = name, dimtxt = h\<rparr>]\<rparr>"

definition add_entity :: "entity \<Rightarrow> document \<Rightarrow> document" where
  "add_entity e doc = doc\<lparr>entities := entities doc @ [e]\<rparr>"

text \<open>The lightweight polylines of a document.\<close>

definition is_polyline :: "entity \<Rightarrow> bool" where
  "is_polyline e = (case e of LWPolyline _ _ _ \<Rightarrow> True | _ \<Rightarrow> False)"

definition polylines :: "document \<Rightarrow> entity list" where
  "polylines doc = filter is_polyline (entities doc)"

text \<open>The texts of a document, in the order of their creation.\<close>

definition texts :: "document \<Rightarrow> ustring list" where
  "texts doc = concat (map (\<lambda>e. case e of Text t _ _ _ \<Rightarrow> [t] | _ \<Rightarrow> []) (entities doc))"

subsection \<open>The file name\<close>

text \<open>
  The class \<^verbatim>\<open>\w\<close> of a \<^verbatim>\<open>str\<close> pattern on U+0000..U+00FF: the characters that are
  alphanumeric for Unicode, and the underscore.
\<close>

definition is_word :: "char \<Rightarrow> bool" where
  "is_word c =
     (let n = code c
      in (48 \<le> n \<and> n \<le> 57) \<or> (65 \<le> n \<and> n \<le> 90) \<or> n = 95 \<or> (97 \<le> n \<and> n \<le> 122)
         \<or> n \<in> {170, 178, 179, 181, 185, 186, 188, 189, 190}
         \<or> (192 \<le> n \<and> n \<le> 214) \<or> (216 \<le> n \<and> n \<le> 246) \<or> (248 \<le> n \<and> n \<le> 255))"

text \<open>The characters that the class \<^verbatim>\<open>[^\w.-]\<close> does not match.\<close>

definition kept :: "char \<Rightarrow> bool" where
  "kept c = (is_word c \<or> c = CHR ''.'' \<or> c = CHR ''-'')"

text \<open>
  \<^verbatim>\<open>re.sub(r'[^\w.-]+', '_', s)\<close>: from left to right, each longest run of characters
  of the class becomes one underscore.
\<close>

function sanitize :: "string \<Rightarrow> string" where
  "sanitize [] = []"
| "sanitize (c # cs) =
     (if kept c then c # sanitize cs
      else CHR ''_'' # sanitize (dropWhile (\<lambda>x. \<not> kept x) cs))"
  by pat_completeness auto
termination
  by (relation "measure length") (auto simp: less_Suc_eq_le length_dropWhile_le)

subsection \<open>The function\<close>

datatype draw_error =
    UnknownShape string
  | MissingParameter string string
  | DrawingError

text \<open>
  The three failure returns of the source, each \<^verbatim>\<open>(None, message)\<close>:
  \<open>UnknownShape s\<close> for \<^verbatim>\<open>Forma 's' desconhecida.\<close>, \<open>MissingParameter s k\<close> for the
  \<^verbatim>\<open>KeyError\<close> handler (shape \<open>s\<close>, key \<open>k\<close>), \<open>DrawingError\<close> for the handler of any
  other exception (\<^verbatim>\<open>Erro interno de desenho.\<close>).
\<close>

text \<open>
  \<^verbatim>\<open>params.get('text_lines')\<close>: the list that step 5 stored or, when step 5 stored
  none, whatever the raw record had under that key.
\<close>

datatype text_value = TLines "ustring list" | TRaw rawval | TAbsent

definition get_text_lines :: "params \<Rightarrow> text_value" where
  "get_text_lines p =
     (case text_lines p of
        Some ls \<Rightarrow> TLines ls
      | None \<Rightarrow> (case map_of (entries p) ''text_lines'' of Some v \<Rightarrow> TRaw v | None \<Rightarrow> TAbsent))"

definition text_truthy :: "text_value \<Rightarrow> bool" where
  "text_truthy t = (case t of TLines ls \<Rightarrow> ls \<noteq> [] | TRaw v \<Rightarrow> truthy v | TAbsent \<Rightarrow> False)"

text \<open>
  What \<^verbatim>\<open>enumerate\<close> iterates over: the lines of a list, the characters of a string;
  any other value is not iterable (\<^verbatim>\<open>TypeError\<close>).
\<close>

definition iter_lines :: "text_value \<Rightarrow> exn + ustring list" where
  "iter_lines t =
     (case t of
        TLines ls \<Rightarrow> Inr ls
      | TRaw (RStr s) \<Rightarrow> Inr (map (\<lambda>c. [code c]) s)
      | _ \<Rightarrow> Inl TypeError)"

text \<open>\<^verbatim>\<open>str(params.get(k))\<close>, for the looked-up entry.\<close>

definition str_get :: "rawval option \<Rightarrow> string" where
  "str_get sh = (case sh of Some v \<Rightarrow> py_str v | None \<Rightarrow> ''None'')"

definition add_text_lines :: "style_config \<Rightarrow> ustring list \<Rightarrow> document \<Rightarrow> document" where
  "add_text_lines st ls doc =
     (let start_point = text_insert_point st;
          line_spacing = fmul (char_height st) (Fin (3 / 2))
      in foldl (\<lambda>d (i, line).
            add_entity
              (Text line ''TEXTO'' (char_height st)
                 (fst start_point, fsub (snd start_point) (fmul (float_of_int (int i)) line_spacing)))
              d)
          doc (enumerate 0 ls))"

definition add_rectangle_dims :: "style_config \<Rightarrow> pyfloat \<Rightarrow> pyfloat \<Rightarrow> document \<Rightarrow> document" where
  "add_rectangle_dims st w h doc =
     add_entity
       (AlignedDim (Fin 0, Fin 0) (Fin 0, h) (fneg (dim_distance st)) ''COTAS'' ''NOROACO_DIMSTYLE'')
       (add_entity
          (AlignedDim (Fin 0, h) (w, h) (dim_distance st) ''COTAS'' ''NOROACO_DIMSTYLE'')
          doc)"

text \<open>
  The body of the function with the document passed along: the result is the
  document as it is when the function returns, and either the failure or the file name.
\<close>

definition build_drawing :: "params \<Rightarrow> document \<times> (draw_error + string)" where
  "build_drawing p =
     (let st = styles p;
          tl = get_text_lines p;
          doc1 = new_layer ''FUROS'' (holes_color st)
                   (new_layer ''CONTORNO'' (contour_color st) new_document);
          doc2 = (if text_truthy tl then new_layer ''TEXTO'' (text_color st) doc1 else doc1);
          doc3 = (if include_dims st
                  then new_dimstyle ''NOROACO_DIMSTYLE'' (char_height st)
                         (new_layer ''COTAS'' (text_color st) doc2)
                  else doc2);
          shape_type = map_of (entries p) ''shape''
      in if shape_type \<noteq> Some (RStr ''rectangle'')
         then (doc3, Inl (UnknownShape (str_get shape_type)))
         else
           case map_of (numeric p) ''width'' of
             None \<Rightarrow> (doc3, Inl (MissingParameter (str_get shape_type) ''width''))
           | Some w \<Rightarrow>
          (case map_of (numeric p) ''height'' of
             None \<Rightarrow> (doc3, Inl (MissingParameter (str_get shape_type) ''height''))
           | Some h \<Rightarrow>
               let doc4 = add_entity
                            (LWPolyline [(Fin 0, Fin 0), (w, Fin 0), (w, h), (Fin 0, h)] True
                               ''CONTORNO'')
                            doc3
               in (case (if text_truthy tl then iter_lines tl else Inr []) of
                     Inl e \<Rightarrow> (doc4, Inl DrawingError)
                   | Inr ls \<Rightarrow>
                       (let doc5 = add_text_lines st ls doc4;
                            doc6 = (if include_dims st then add_rectangle_dims st w h doc5 else doc5)
                        in (doc6,
                            Inr (sanitize (str_get (map_of (entries p) ''part_name'')) @ ''.dxf''))))))"

text \<open>
  The returned pair: \<open>Inr (doc, name)\<close> for \<^verbatim>\<open>(stream.getvalue(), name)\<close>, the text that
  ezdxf writes for the document \<open>doc\<close>; \<open>Inl e\<close> for \<^verbatim>\<open>(None, message)\<close>.
\<close>

definition create_dxf_drawing :: "params \<Rightarrow> draw_error + (document \<times> string)" where
  "create_dxf_drawing p =
     (case build_drawing p of
        (doc, Inl e) \<Rightarrow> Inl e
      | (doc, Inr name) \<Rightarrow> Inr (doc, name))"

text \<open>The layers that exist when the shape is looked up.\<close>

definition layers_before_shape :: "params \<Rightarrow> layer list" where
  "layers_before_shape p =
     [\<lparr>layer_name = ''CONTORNO'', layer_color = contour_color (styles p)\<rparr>,
      \<lparr>layer_name = ''FUROS'', layer_color = holes_color (styles p)\<rparr>]
     @ (if text_truthy (get_text_lines p)
        then [\<lparr>layer_name = ''TEXTO'', layer_color = text_color (styles p)\<rparr>] else [])
     @ (if include_dims (styles p)
        then [\<lparr>layer_name = ''COTAS'', layer_color = text_color (styles p)\<rparr>] else [])"

section \<open>The batch loop of \<^verbatim>\<open>generate_dxf_batch\<close>\<close>

datatype log_entry =
    IgnoredRow int prep_error
  | DrawFailed string draw_error

record batch_state =
  archive :: "(string \<times> document) list"
  log :: "log_entry list"

text \<open>
  One turn of the loop, for the row with index label \<open>index\<close>: the form fields
  override the row, then preparation and drawing. \<open>Inl e\<close>: the exception \<open>e\<close> leaves
  the loop, and the request handler with it.
\<close>

definition batch_step :: "rawval dict \<Rightarrow> batch_state \<Rightarrow> int \<times> rawval dict \<Rightarrow> exn + batch_state" where
  "batch_step form st row =
     (case prepare_data_for_dxf (dict_update (snd row) form) of
        Inl e \<Rightarrow> Inl e
      | Inr (Inl err) \<Rightarrow> Inr (st\<lparr>log := log st @ [IgnoredRow (fst row + 2) err]\<rparr>)
      | Inr (Inr prepared_data) \<Rightarrow>
          (case create_dxf_drawing prepared_data of
             Inl err \<Rightarrow>
               Inr (st\<lparr>log := log st @
                      [DrawFailed (str_get (map_of (entries prepared_data) ''part_name'')) err]\<rparr>)
           | Inr (dxf_content, filename) \<Rightarrow>
               Inr (st\<lparr>archive := archive st @ [(filename, dxf_content)]\<rparr>)))"

fun batch_loop :: "rawval dict \<Rightarrow> batch_state \<Rightarrow> (int \<times> rawval dict) list \<Rightarrow> exn + batch_state" where
  "batch_loop form st [] = Inr st"
| "batch_loop form st (row # rows) =
     (case batch_step form st row of
        Inl e \<Rightarrow> Inl e
      | Inr st' \<Rightarrow> batch_loop form st' rows)"

definition generate_dxf_batch :: "(int \<times> rawval dict) list \<Rightarrow> rawval dict \<Rightarrow> exn + batch_state" where
  "generate_dxf_batch rows form = batch_loop form \<lparr>archive = [], log = []\<rparr> rows"

section \<open>The spec's words\<close>

text \<open>
  Definitions that follow the wording of the specification, to be compared with the
  definitions above, which follow the source.
\<close>

text \<open>\<open>clamp(x, lo, hi)\<close>.\<close>

definition spec_clamp :: "pyfloat \<Rightarrow> pyfloat \<Rightarrow> pyfloat \<Rightarrow> pyfloat" where
  "spec_clamp x lo hi = (if flt x lo then lo else if flt hi x then hi else x)"

text \<open>
  A boolean option is true when the string form of its value, lowercased, is one of the
  four tokens; an absent key is false.
\<close>

definition spec_option :: "rawval option \<Rightarrow> bool" where
  "spec_option v =
     (case v of None \<Rightarrow> False
      | Some x \<Rightarrow> py_lower (py_str x) \<in> {''true'', ''on'', ''1'', ''sim''})"

text \<open>
  The characters \<open>A\<close>-\<open>Z\<close>, \<open>a\<close>-\<open>z\<close>, \<open>0\<close>-\<open>9\<close>, the point, the underscore and the
  hyphen; and the replacement of every other character, one by one, by an underscore.
\<close>

definition spec_allowed :: "char \<Rightarrow> bool" where
  "spec_allowed c =
     (let n = code c
      in (65 \<le> n \<and> n \<le> 90) \<or> (97 \<le> n \<and> n \<le> 122) \<or> (48 \<le> n \<and> n \<le> 57)
         \<or> c = CHR ''.'' \<or> c = CHR ''_'' \<or> c = CHR ''-'')"

definition spec_replace_each :: "string \<Rightarrow> string" where
  "spec_replace_each s = map (\<lambda>c. if spec_allowed c then c else CHR ''_'') s"

text \<open>
  The volume in cubic metres from the area in square millimetres and the thickness in
  millimetres; and a number formatted to \<open>p\<close> decimals with a decimal comma.
\<close>

definition spec_volume_m3 :: "pyfloat \<Rightarrow> pyfloat \<Rightarrow> pyfloat" where
  "spec_volume_m3 area_mm2 thickness_mm = fmul (fdiv area_mm2 1000000) (fdiv thickness_mm 1000)"

definition spec_decimal_comma :: "nat \<Rightarrow> pyfloat \<Rightarrow> string" where
  "spec_decimal_comma p x = py_replace CHR ''.'' CHR '','' (fmt_fixed p x)"

definition is_ascii :: "string \<Rightarrow> bool" where
  "is_ascii s = list_all (\<lambda>c. code c < 128) s"

section \<open>Example records\<close>

text \<open>The rectangle of the specification's testable properties, and what it is prepared to.\<close>

definition example_P1 :: "rawval dict" where
  "example_P1 =
     [(''part_name'', RStr ''P1''), (''shape'', RStr ''rectangle''),
      (''width'', RInt 100), (''height'', RInt 50)]"

definition prepared_P1 :: params where
  "prepared_P1 =
     \<lparr>entries = example_P1,
      numeric = [(''width'', Fin 100), (''height'', Fin 50)],
      styles = \<lparr>contour_color = 7, holes_color = 1, text_color = 2, include_dims = False,
        char_height = Fin 5, dim_distance = Fin 15, text_insert_point = (Fin 0, Fin (- 10))\<rparr>,
      text_lines = None\<rparr>"

text \<open>A record with no dimension at all.\<close>

definition example_bare :: "rawval dict" where
  "example_bare = [(''part_name'', RStr ''P1''), (''shape'', RStr ''rectangle'')]"

definition prepared_bare :: params where
  "prepared_bare =
     \<lparr>entries = example_bare,
      numeric = [],
      styles = \<lparr>contour_color = 7, holes_color = 1, text_color = 2, include_dims = False,
        char_height = Fin 8, dim_distance = Fin 24, text_insert_point = (Fin 0, Fin (- 16))\<rparr>,
      text_lines = None\<rparr>"

text \<open>
  A row of a spreadsheet whose width cell is empty, so nan, and whose height is 1000;
  and what it is prepared to.
\<close>

definition example_nan_width :: "rawval dict" where
  "example_nan_width =
     [(''part_name'', RStr ''P1''), (''shape'', RStr ''rectangle''),
      (''width'', RNan), (''height'', RStr ''1000'')]"

definition prepared_nan_width :: params where
  "prepared_nan_width =
     \<lparr>entries = example_nan_width,
      numeric = [(''width'', NaN), (''height'', Fin 1000)],
      styles = \<lparr>contour_color = 7, holes_color = 1, text_color = 2, include_dims = False,
        char_height = Fin 8, dim_distance = Fin 24, text_insert_point = (Fin 0, Fin (- 16))\<rparr>,
      text_lines = None\<rparr>"

text \<open>A record with the two options, under a spreadsheet column name and a canonical one.\<close>

definition example_flags :: "rawval dict" where
  "example_flags =
     [(''part_name'', RStr ''P1''), (''shape'', RStr ''rectangle''),
      (''Cotas'', RStr ''SIM''), (''include_text_info'', RStr ''off'')]"

definition prepared_flags :: params where
  "prepared_flags =
     \<lparr>entries = [(''part_name'', RStr ''P1''), (''shape'', RStr ''rectangle''),
                 (''include_dims'', RStr ''SIM''), (''include_text_info'', RStr ''off'')],
      numeric = [],
      styles = \<lparr>contour_color = 7, holes_color = 1, text_color = 2, include_dims = True,
        char_height = Fin 8, dim_distance = Fin 24, text_insert_point = (Fin 0, Fin (- 16))\<rparr>,
      text_lines = None\<rparr>"



text \<open>The part name of the specification's file name example.\<close>

definition example_part :: "rawval dict" where
  "example_part =
     [(''part_name'', RStr ''Part #1/2024''), (''shape'', RStr ''rectangle''),
      (''width'', RInt 100), (''height'', RInt 50)]"

definition prepared_part :: params where
  "prepared_part =
     \<lparr>entries = example_part,
      numeric = [(''width'', Fin 100), (''height'', Fin 50)],
      styles = \<lparr>contour_color = 7, holes_color = 1, text_color = 2, include_dims = False,
        char_height = Fin 5, dim_distance = Fin 15, text_insert_point = (Fin 0, Fin (- 10))\<rparr>,
      text_lines = None\<rparr>"

text \<open>
  The weight example of the specification: 1000 by 1000, thickness 10, density 7850,
  quantity 2.
\<close>

definition example_weight :: "rawval dict" where
  "example_weight =
     [(''part_name'', RStr ''p1''), (''shape'', RStr ''rectangle''),
      (''width'', RStr ''1000''), (''height'', RStr ''1000''),
      (''material_thickness'', RStr ''10''), (''material_density'', RStr ''7850''),
      (''part_quantity'', RStr ''2''), (''include_text_info'', RStr ''true'')]"

definition prepared_weight :: params where
  "prepared_weight =
     \<lparr>entries = example_weight,
      numeric = [(''width'', Fin 1000), (''height'', Fin 1000), (''material_thickness'', Fin 10),
                 (''material_density'', Fin 7850), (''part_quantity'', Fin 2)],
      styles = \<lparr>contour_color = 7, holes_color = 1, text_color = 2, include_dims = False,
        char_height = Fin 35, dim_distance = Fin 105, text_insert_point = (Fin 0, Fin (- 70))\<rparr>,
      text_lines = Some (map ustr [''P1'', ''Espessura: 10.00 mm  (Qtd: 02x)'',
                         ''Peso Unitario: 78,500 Kg'', ''Peso Total: 157,000 Kg''])\<rparr>"

text \<open>The same part with no density and no quantity given.\<close>

definition example_no_density :: "rawval dict" where
  "example_no_density =
     [(''part_name'', RStr ''p1''), (''shape'', RStr ''rectangle''),
      (''width'', RStr ''1000''), (''height'', RStr ''1000''),
      (''material_thickness'', RStr ''10''), (''include_text_info'', RStr ''true'')]"

definition prepared_no_density :: params where
  "prepared_no_density =
     \<lparr>entries = example_no_density,
      numeric = [(''width'', Fin 1000), (''height'', Fin 1000), (''material_thickness'', Fin 10)],
      styles = \<lparr>contour_color = 7, holes_color = 1, text_color = 2, include_dims = False,
        char_height = Fin 35, dim_distance = Fin 105, text_insert_point = (Fin 0, Fin (- 70))\<rparr>,
      text_lines = Some (map ustr [''P1'', ''Espessura: 10.00 mm  (Qtd: 01x)'',
                         ''Peso Unitario: 78,500 Kg'', ''Peso Total: 78,500 Kg''])\<rparr>"

text \<open>The same part with the quantity nan: the empty cell of a spreadsheet's quantity column.\<close>

definition example_nan_quantity :: "rawval dict" where
  "example_nan_quantity =
     [(''part_name'', RStr ''p1''), (''shape'', RStr ''rectangle''),
      (''width'', RStr ''1000''), (''height'', RStr ''1000''),
      (''part_quantity'', RNan), (''include_text_info'', RStr ''true'')]"

definition prepared_nan_quantity :: params where
  "prepared_nan_quantity =
     \<lparr>entries = example_nan_quantity,
      numeric = [(''width'', Fin 1000), (''height'', Fin 1000), (''part_quantity'', NaN)],
      styles = \<lparr>contour_color = 7, holes_color = 1, text_color = 2, include_dims = False,
        char_height = Fin 35, dim_distance = Fin 105, text_insert_point = (Fin 0, Fin (- 70))\<rparr>,
      text_lines = Some (map ustr [''P1'', ''ERRO NO CALCULO DE PESO''])\<rparr>"

text \<open>A width with a decimal comma, and an empty height.\<close>

definition example_comma :: "rawval dict" where
  "example_comma =
     [(''part_name'', RStr ''P1''), (''shape'', RStr ''rectangle''),
      (''width'', RStr ''10,5''), (''height'', RStr [])]"

definition prepared_comma :: params where
  "prepared_comma =
     \<lparr>entries = example_comma,
      numeric = [(''width'', Fin (21 / 2)), (''height'', Fin 0)],
      styles = \<lparr>contour_color = 7, holes_color = 1, text_color = 2, include_dims = False,
        char_height = Fin 5, dim_distance = Fin 15, text_insert_point = (Fin 0, Fin (- 10))\<rparr>,
      text_lines = None\<rparr>"

text \<open>Annotated rectangles of area zero: one with no width, one of width 0.\<close>

definition example_no_width :: "rawval dict" where
  "example_no_width =
     [(''part_name'', RStr ''P1''), (''shape'', RStr ''rectangle''),
      (''height'', RStr ''50''), (''include_text_info'', RStr ''true'')]"

definition prepared_no_width :: params where
  "prepared_no_width =
     \<lparr>entries = example_no_width,
      numeric = [(''height'', Fin 50)],
      styles = \<lparr>contour_color = 7, holes_color = 1, text_color = 2, include_dims = False,
        char_height = Fin 5, dim_distance = Fin 15, text_insert_point = (Fin 0, Fin (- 10))\<rparr>,
      text_lines = Some (map ustr [''P1'', ''ERRO NO CALCULO DE PESO''])\<rparr>"

definition example_zero_width :: "rawval dict" where
  "example_zero_width =
     [(''part_name'', RStr ''P1''), (''shape'', RStr ''rectangle''),
      (''width'', RStr ''0''), (''height'', RStr ''50''), (''include_text_info'', RStr ''true'')]"

definition prepared_zero_width :: params where
  "prepared_zero_width =
     \<lparr>entries = example_zero_width,
      numeric = [(''width'', Fin 0), (''height'', Fin 50)],
      styles = \<lparr>contour_color = 7, holes_color = 1, text_color = 2, include_dims = False,
        char_height = Fin 5, dim_distance = Fin 15, text_insert_point = (Fin 0, Fin (- 10))\<rparr>,
      text_lines = Some (map ustr [''P1'', ''ERRO NO CALCULO DE PESO''])\<rparr>"

text \<open>
  A rectangle whose contour colour is nan, the empty cell of a spreadsheet's colour
  column; and a record with no shape.
\<close>

definition example_nan_color :: "rawval dict" where
  "example_nan_color =
     [(''part_name'', RStr ''P2''), (''shape'', RStr ''rectangle''),
      (''width'', RInt 100), (''height'', RInt 50), (''contour_color'', RNan)]"

definition example_no_shape :: "rawval dict" where
  "example_no_shape = [(''part_name'', RStr ''P3''), (''width'', RInt 100)]"

section \<open>Evaluation on concrete inputs\<close>

lemma floor_rat_numeral_div:
  "\<lfloor>(numeral a :: rat) / numeral b\<rfloor> = numeral a div numeral b"
  using floor_divide_of_int_eq [of "numeral a" "numeral b", where ?'a = rat] by simp

lemma floor_rat_one_div:
  "\<lfloor>(1 :: rat) / numeral b\<rfloor> = 1 div numeral b"
  using floor_divide_of_int_eq [of 1 "numeral b", where ?'a = rat] by simp

lemmas string_eval =
  code_def is_digit_def digit_val_def is_space_def is_float_space_def strip_with_def
  py_strip_def lower_char_def py_lower_def upper_char_def py_upper_def py_replace_def
  show_int_def show_nat.simps char_of_def zero_pad_def

lemmas float_eval =
  is_nan_def is_finite_def is_neg_def fval_def is_zero_def bit_length.simps pow2_def
  pow10_def ilog2_def round_half_even_def rnd_mag_def mk_float_def fneg_def fmul_def
  fdiv_def fsub_def flt_def fle_def py_max_def py_min_def py_int_def py_trunc_def float_of_int_def
  fmt_fixed_def fmt_02d_def digits_val_def parse_exponent_def parse_decimal_def
  py_float_def Let_def floor_rat_numeral_div floor_rat_one_div

lemmas prepare_eval =
  py_str_def truthy_def dict_update_def COLUMN_MAPPING_def clean_key_def internal_key_def
  translate_keys_def to_float_def numeric_keys_def numeric_default_def coerce_numeric_def
  get_num_def get_raw_def calc_max_dim_def calc_char_height_def color_of_def
  truthy_tokens_def flag_of_def calc_area_def weight_lines_def error_lines_def
  calc_text_lines_def
  List.map_filter_simps

lemmas draw_eval =
  new_document_def new_layer_def new_dimstyle_def add_entity_def is_word_def kept_def
  get_text_lines_def text_truthy_def iter_lines_def str_get_def add_text_lines_def
  add_rectangle_dims_def enumerate_eq_zip

lemmas all_eval = string_eval float_eval prepare_eval draw_eval

lemma py_upper_examples:
  "py_upper ''p1'' = ustr ''P1''"
  "py_upper ''P1'' = ustr ''P1''"
  "py_upper [char_of (223 :: int)] = ustr ''SS''"
  "py_upper [char_of (181 :: int)] = [924]"
  "py_upper [char_of (255 :: int)] = [376]"
  by (simp_all add: ustr_def string_eval)

lemma ustr_inject: "(ustr s = ustr t) = (s = t)"
proof -
  have "inj code" by (rule injI) (simp add: code_def)
  then show ?thesis by (simp add: ustr_def inj_map_eq_map)
qed

section \<open>Facts about the preparation\<close>

lemma prepare_fields:
  assumes "prepare_data_for_dxf raw = Inr (Inr p)"
  shows "entries p = translate_keys raw"
    and "numeric p = coerce_numeric (translate_keys raw)"
    and "char_height (styles p) = calc_char_height (calc_max_dim (numeric p))"
    and "dim_distance (styles p) = py_max (Fin 15) [fmul (char_height (styles p)) (Fin 3)]"
    and "text_insert_point (styles p) = (Fin 0, fmul (fneg (char_height (styles p))) (Fin 2))"
    and "include_dims (styles p) = flag_of (entries p) ''include_dims''"
    and "text_lines p = calc_text_lines (entries p) (numeric p)"
    and "truthy (get_raw (entries p) ''part_name'' RNone)"
    and "truthy (get_raw (entries p) ''shape'' RNone)"
  using assms unfolding prepare_data_for_dxf_def Let_def
  by (auto split: if_splits sum.splits)

lemma prepare_returns:
  assumes "translate_keys raw = es"
    and "truthy (get_raw es ''part_name'' RNone)" and "truthy (get_raw es ''shape'' RNone)"
    and "coerce_numeric es = nums"
    and "calc_char_height (calc_max_dim nums) = ch"
    and "color_of es ''contour_color'' 7 = Inr cc"
    and "color_of es ''holes_color'' 1 = Inr hc"
    and "color_of es ''text_color'' 2 = Inr tc"
    and "flag_of es ''include_dims'' = dims"
    and "py_max (Fin 15) [fmul ch (Fin 3)] = dd"
    and "fmul (fneg ch) (Fin 2) = ty"
    and "calc_text_lines es nums = lns"
  shows "prepare_data_for_dxf raw =
     Inr (Inr \<lparr>entries = es, numeric = nums,
        styles = \<lparr>contour_color = cc, holes_color = hc, text_color = tc, include_dims = dims,
          char_height = ch, dim_distance = dd, text_insert_point = (Fin 0, ty)\<rparr>,
        text_lines = lns\<rparr>)"
  using assms by (simp add: prepare_data_for_dxf_def Let_def)

subsection \<open>Comparisons\<close>

lemma mk_float_not_nan: "mk_float neg m \<noteq> NaN"
  by (simp add: mk_float_def split: option.splits)

lemma fdiv_not_nan: "x \<noteq> NaN \<Longrightarrow> fdiv x d \<noteq> NaN"
  by (simp add: fdiv_def mk_float_not_nan)

lemma flt_not_nan: "flt x y \<Longrightarrow> x \<noteq> NaN \<and> y \<noteq> NaN"
  by (auto simp: flt_def is_nan_def)

lemma flt_imp_fle: "flt x y \<Longrightarrow> fle x y"
  by (cases x; cases y) (auto simp: flt_def fle_def is_nan_def fval_def split: if_splits)

lemma flt_imp_not_fle: "flt x y \<Longrightarrow> \<not> fle y x"
  by (cases x; cases y) (auto simp: flt_def fle_def is_nan_def fval_def split: if_splits)

lemma fle_refl: "x \<noteq> NaN \<Longrightarrow> fle x x"
  by (cases x) (auto simp: fle_def is_nan_def)

lemma not_flt_imp_fle: "x \<noteq> NaN \<Longrightarrow> y \<noteq> NaN \<Longrightarrow> \<not> flt x y \<Longrightarrow> fle y x"
  by (cases x; cases y) (auto simp: flt_def fle_def is_nan_def fval_def split: if_splits)

lemma fle_trans: "fle x y \<Longrightarrow> fle y z \<Longrightarrow> fle x z"
  by (cases x; cases y; cases z) (auto simp: fle_def is_nan_def fval_def split: if_splits)

lemma py_max_two: "py_max x [y] = (if flt x y then y else x)"
  by (simp add: py_max_def)

lemma py_min_two: "py_min x [y] = (if flt y x then y else x)"
  by (simp add: py_min_def)

lemma py_max_three:
  "py_max x [y, z] = (let m = (if flt x y then y else x) in if flt m z then z else m)"
  by (simp add: py_max_def)

lemma calc_char_height_clamp:
  "calc_char_height m = spec_clamp (fdiv m 25) (Fin 5) (Fin 35)"
  by (cases "fdiv m 25")
     (auto simp: calc_char_height_def spec_clamp_def py_max_two py_min_two flt_def is_nan_def
        fval_def)

lemma calc_char_height_range:
  assumes "m \<noteq> NaN"
  shows "fle (Fin 5) (calc_char_height m) \<and> fle (calc_char_height m) (Fin 35)"
proof -
  have "fdiv m 25 \<noteq> NaN" using assms by (rule fdiv_not_nan)
  then show ?thesis
    by (cases "fdiv m 25")
       (auto simp: calc_char_height_def py_max_two py_min_two flt_def fle_def is_nan_def fval_def)
qed

lemma calc_max_dim_positive: "flt (Fin 0) (calc_max_dim nums)"
  by (simp add: calc_max_dim_def Let_def flt_def is_nan_def fval_def)

lemma dim_distance_at_least: "fle (Fin 15) (py_max (Fin 15) [v])"
  by (simp add: py_max_two flt_imp_fle fle_refl)

subsection \<open>The greatest dimension\<close>

lemma flt_fle_trans: "flt x y \<Longrightarrow> fle y z \<Longrightarrow> flt x z"
  by (cases x; cases y; cases z) (auto simp: flt_def fle_def is_nan_def fval_def split: if_splits)

lemma calc_max_dim_default:
  assumes "\<not> flt (Fin 0) (get_num nums ''width'' (Fin 0))"
    and "\<not> flt (Fin 0) (get_num nums ''height'' (Fin 0))"
    and "\<not> flt (Fin 0) (get_num nums ''diameter'' (Fin 0))"
  shows "calc_max_dim nums = Fin 200"
  using assms by (simp add: calc_max_dim_def py_max_three Let_def)

lemma py_max_three_greatest:
  assumes "w \<noteq> NaN" "h \<noteq> NaN" "d \<noteq> NaN"
  shows "py_max w [h, d] \<in> {w, h, d} \<and> fle w (py_max w [h, d]) \<and> fle h (py_max w [h, d])
    \<and> fle d (py_max w [h, d])"
proof -
  have wh: "\<not> flt w h \<Longrightarrow> fle h w" using assms by (simp add: not_flt_imp_fle)
  have wd: "\<not> flt w d \<Longrightarrow> fle d w" using assms by (simp add: not_flt_imp_fle)
  have hd: "\<not> flt h d \<Longrightarrow> fle d h" using assms by (simp add: not_flt_imp_fle)
  have tr: "flt w h \<Longrightarrow> flt h d \<Longrightarrow> fle w d"
    by (blast intro: flt_imp_fle fle_trans)
  have tr': "\<not> flt w h \<Longrightarrow> flt w d \<Longrightarrow> fle h d"
    using wh by (blast intro: flt_imp_fle fle_trans)
  show ?thesis
    using assms wh wd hd tr tr'
    by (auto simp: py_max_three Let_def fle_refl flt_imp_fle)
qed

lemma calc_max_dim_greatest:
  assumes "get_num nums ''width'' (Fin 0) \<noteq> NaN"
    and "get_num nums ''height'' (Fin 0) \<noteq> NaN"
    and "get_num nums ''diameter'' (Fin 0) \<noteq> NaN"
    and "flt (Fin 0) (get_num nums ''width'' (Fin 0)) \<or> flt (Fin 0) (get_num nums ''height'' (Fin 0))
         \<or> flt (Fin 0) (get_num nums ''diameter'' (Fin 0))"
  shows "calc_max_dim nums \<in>
           {get_num nums ''width'' (Fin 0), get_num nums ''height'' (Fin 0),
            get_num nums ''diameter'' (Fin 0)}
    \<and> fle (get_num nums ''width'' (Fin 0)) (calc_max_dim nums)
    \<and> fle (get_num nums ''height'' (Fin 0)) (calc_max_dim nums)
    \<and> fle (get_num nums ''diameter'' (Fin 0)) (calc_max_dim nums)"
proof -
  let ?m = "py_max (get_num nums ''width'' (Fin 0))
              [get_num nums ''height'' (Fin 0), get_num nums ''diameter'' (Fin 0)]"
  note g = py_max_three_greatest [OF assms(1-3)]
  have "flt (Fin 0) ?m"
    using assms(4) g by (auto intro: flt_fle_trans)
  then have "calc_max_dim nums = ?m"
    by (simp add: calc_max_dim_def Let_def)
  then show ?thesis using g by simp
qed

subsection \<open>Negation and multiplication\<close>

lemma fneg_mk_float: "fneg (mk_float neg m) = mk_float (\<not> neg) m"
  by (auto simp: mk_float_def fneg_def split: option.splits)

lemma fneg_facts:
  "is_nan (fneg x) = is_nan x" "is_finite (fneg x) = is_finite x" "is_zero (fneg x) = is_zero x"
  "\<bar>fval (fneg x)\<bar> = \<bar>fval x\<bar>" "x \<noteq> NaN \<Longrightarrow> is_neg (fneg x) = (\<not> is_neg x)"
  by (cases x; auto simp: fneg_def is_nan_def is_finite_def is_zero_def fval_def is_neg_def)+

lemma fmul_fneg: "fmul (fneg x) y = fneg (fmul x y)"
proof (cases "is_nan x \<or> is_nan y")
  case True
  then show ?thesis by (auto simp: fmul_def fneg_facts) (simp_all add: fneg_def)
next
  case False
  then have "x \<noteq> NaN" by (simp add: is_nan_def)
  then have n: "is_neg (fneg x) = (\<not> is_neg x)" by (rule fneg_facts)
  show ?thesis
  proof (cases "is_finite x \<and> is_finite y")
    case True
    with False n show ?thesis
      by (auto simp: fmul_def fneg_facts fneg_mk_float)
  next
    case nf: False
    with False n show ?thesis
      by (auto simp: fmul_def fneg_facts) (simp_all add: fneg_def)
  qed
qed

lemma fmul_commute: "fmul x y = fmul y x"
  by (auto simp: fmul_def mult.commute)

section \<open>The claims\<close>

subsection \<open>The example records, prepared\<close>

lemma prepare_example_P1: "prepare_data_for_dxf example_P1 = Inr (Inr prepared_P1)"
  unfolding prepared_P1_def
proof (rule prepare_returns)
  show "translate_keys example_P1 = example_P1" by (simp add: example_P1_def all_eval)
  show "truthy (get_raw example_P1 ''part_name'' RNone)" by (simp add: example_P1_def all_eval)
  show "truthy (get_raw example_P1 ''shape'' RNone)" by (simp add: example_P1_def all_eval)
  show "coerce_numeric example_P1 = [(''width'', Fin 100), (''height'', Fin 50)]"
    by (simp add: example_P1_def all_eval)
  show "calc_char_height (calc_max_dim [(''width'', Fin 100), (''height'', Fin 50)]) = Fin 5"
    by (simp add: all_eval)
  show "color_of example_P1 ''contour_color'' 7 = Inr 7" by (simp add: example_P1_def all_eval)
  show "color_of example_P1 ''holes_color'' 1 = Inr 1" by (simp add: example_P1_def all_eval)
  show "color_of example_P1 ''text_color'' 2 = Inr 2" by (simp add: example_P1_def all_eval)
  show "flag_of example_P1 ''include_dims'' = False" by (simp add: example_P1_def all_eval)
  show "py_max (Fin 15) [fmul (Fin 5) (Fin 3)] = Fin 15" by (simp add: all_eval)
  show "fmul (fneg (Fin 5)) (Fin 2) = Fin (- 10)" by (simp add: all_eval)
  show "calc_text_lines example_P1 [(''width'', Fin 100), (''height'', Fin 50)] = None"
    by (simp add: example_P1_def all_eval)
qed

lemma colors_default:
  assumes "map_of es ''contour_color'' = None" "map_of es ''holes_color'' = None"
    "map_of es ''text_color'' = None"
  shows "color_of es ''contour_color'' 7 = Inr 7" "color_of es ''holes_color'' 1 = Inr 1"
    "color_of es ''text_color'' 2 = Inr 2"
  using assms by (simp_all add: all_eval)

lemma styles_of_200:
  "calc_char_height (Fin 200) = Fin 8" "py_max (Fin 15) [fmul (Fin 8) (Fin 3)] = Fin 24"
  "fmul (fneg (Fin 8)) (Fin 2) = Fin (- 16)"
  by (simp_all add: all_eval)

lemma prepare_example_bare: "prepare_data_for_dxf example_bare = Inr (Inr prepared_bare)"
  unfolding prepared_bare_def
proof (rule prepare_returns)
  show "translate_keys example_bare = example_bare" by (simp add: example_bare_def all_eval)
  show "truthy (get_raw example_bare ''part_name'' RNone)" by (simp add: example_bare_def all_eval)
  show "truthy (get_raw example_bare ''shape'' RNone)" by (simp add: example_bare_def all_eval)
  show "coerce_numeric example_bare = []" by (simp add: example_bare_def all_eval)
  show "calc_char_height (calc_max_dim []) = Fin 8"
    by (simp add: all_eval)
  show "color_of example_bare ''contour_color'' 7 = Inr 7"
    by (rule colors_default) (simp_all add: example_bare_def)
  show "color_of example_bare ''holes_color'' 1 = Inr 1"
    by (rule colors_default) (simp_all add: example_bare_def)
  show "color_of example_bare ''text_color'' 2 = Inr 2"
    by (rule colors_default) (simp_all add: example_bare_def)
  show "flag_of example_bare ''include_dims'' = False" by (simp add: example_bare_def all_eval)
  show "py_max (Fin 15) [fmul (Fin 8) (Fin 3)] = Fin 24" by (rule styles_of_200)
  show "fmul (fneg (Fin 8)) (Fin 2) = Fin (- 16)" by (rule styles_of_200)
  show "calc_text_lines example_bare [] = None" by (simp add: example_bare_def all_eval)
qed

lemma prepare_example_flags: "prepare_data_for_dxf example_flags = Inr (Inr prepared_flags)"
  unfolding prepared_flags_def
proof (rule prepare_returns)
  let ?es = "[(''part_name'', RStr ''P1''), (''shape'', RStr ''rectangle''),
              (''include_dims'', RStr ''SIM''), (''include_text_info'', RStr ''off'')]"
  show "translate_keys example_flags = ?es" by (simp add: example_flags_def all_eval)
  show "truthy (get_raw ?es ''part_name'' RNone)" by (simp add: all_eval)
  show "truthy (get_raw ?es ''shape'' RNone)" by (simp add: all_eval)
  show "coerce_numeric ?es = []" by (simp add: all_eval)
  show "calc_char_height (calc_max_dim []) = Fin 8"
    by (simp add: all_eval)
  show "color_of ?es ''contour_color'' 7 = Inr 7" by (rule colors_default) simp_all
  show "color_of ?es ''holes_color'' 1 = Inr 1" by (rule colors_default) simp_all
  show "color_of ?es ''text_color'' 2 = Inr 2" by (rule colors_default) simp_all
  show "flag_of ?es ''include_dims'' = True" by (simp add: all_eval)
  show "py_max (Fin 15) [fmul (Fin 8) (Fin 3)] = Fin 24" by (rule styles_of_200)
  show "fmul (fneg (Fin 8)) (Fin 2) = Fin (- 16)" by (rule styles_of_200)
  show "calc_text_lines ?es [] = None" by (simp add: all_eval)
qed

subsection \<open>C5: the style calculator\<close>

text \<open>
  What holds of every validated record: \<open>char_height = clamp(max_dim / 25, 5, 35)\<close>, which
  lies between 5 and 35; \<open>dim_distance = max(15, char_height * 3)\<close>, which is at least 15;
  \<open>text_insert_point = (0, - 2 * char_height)\<close>; and \<open>max_dim\<close> is 200 when none of width,
  height and diameter (each read as 0 when absent) is positive. When none of the three
  is nan and one of them is positive, \<open>max_dim\<close> is the greatest of them.
\<close>

lemma style_calculator_without_nan:
  assumes "prepare_data_for_dxf raw = Inr (Inr p)"
  shows "char_height (styles p) = spec_clamp (fdiv (calc_max_dim (numeric p)) 25) (Fin 5) (Fin 35)
    \<and> fle (Fin 5) (char_height (styles p)) \<and> fle (char_height (styles p)) (Fin 35)
    \<and> dim_distance (styles p) =
        (if flt (Fin 15) (fmul (char_height (styles p)) (Fin 3))
         then fmul (char_height (styles p)) (Fin 3) else Fin 15)
    \<and> fle (Fin 15) (dim_distance (styles p))
    \<and> text_insert_point (styles p) = (Fin 0, fneg (fmul (Fin 2) (char_height (styles p))))
    \<and> (\<not> flt (Fin 0) (get_num (numeric p) ''width'' (Fin 0))
        \<and> \<not> flt (Fin 0) (get_num (numeric p) ''height'' (Fin 0))
        \<and> \<not> flt (Fin 0) (get_num (numeric p) ''diameter'' (Fin 0))
        \<longrightarrow> calc_max_dim (numeric p) = Fin 200)
    \<and> (get_num (numeric p) ''width'' (Fin 0) \<noteq> NaN
        \<and> get_num (numeric p) ''height'' (Fin 0) \<noteq> NaN
        \<and> get_num (numeric p) ''diameter'' (Fin 0) \<noteq> NaN
        \<and> (flt (Fin 0) (get_num (numeric p) ''width'' (Fin 0))
           \<or> flt (Fin 0) (get_num (numeric p) ''height'' (Fin 0))
           \<or> flt (Fin 0) (get_num (numeric p) ''diameter'' (Fin 0)))
        \<longrightarrow> calc_max_dim (numeric p) \<in>
              {get_num (numeric p) ''width'' (Fin 0), get_num (numeric p) ''height'' (Fin 0),
               get_num (numeric p) ''diameter'' (Fin 0)}
            \<and> fle (get_num (numeric p) ''width'' (Fin 0)) (calc_max_dim (numeric p))
            \<and> fle (get_num (numeric p) ''height'' (Fin 0)) (calc_max_dim (numeric p))
            \<and> fle (get_num (numeric p) ''diameter'' (Fin 0)) (calc_max_dim (numeric p)))"
proof -
  note f = prepare_fields [OF assms]
  have nn: "calc_max_dim (numeric p) \<noteq> NaN"
    using calc_max_dim_positive [of "numeric p"] flt_not_nan by blast
  have ch: "char_height (styles p) = spec_clamp (fdiv (calc_max_dim (numeric p)) 25) (Fin 5) (Fin 35)"
    by (simp add: f(3) calc_char_height_clamp)
  have range: "fle (Fin 5) (char_height (styles p)) \<and> fle (char_height (styles p)) (Fin 35)"
    using calc_char_height_range [OF nn] by (simp add: f(3))
  have dd: "dim_distance (styles p) =
        (if flt (Fin 15) (fmul (char_height (styles p)) (Fin 3))
         then fmul (char_height (styles p)) (Fin 3) else Fin 15)"
    by (simp add: f(4) py_max_two)
  have dd15: "fle (Fin 15) (dim_distance (styles p))"
    by (simp only: f(4) dim_distance_at_least)
  have tip: "text_insert_point (styles p) = (Fin 0, fneg (fmul (Fin 2) (char_height (styles p))))"
    by (simp add: f(5) fmul_fneg fmul_commute)
  show ?thesis
    using ch range dd dd15 tip calc_max_dim_default [of "numeric p"]
      calc_max_dim_greatest [of "numeric p"]
    by blast
qed

lemma style_calculator_examples:
  "prepare_data_for_dxf example_P1 = Inr (Inr prepared_P1)
   \<and> prepare_data_for_dxf example_bare = Inr (Inr prepared_bare)
   \<and> char_height (styles prepared_P1) = Fin 5
   \<and> fle (Fin 5) (char_height (styles prepared_P1))
   \<and> fle (char_height (styles prepared_P1)) (Fin 35)
   \<and> dim_distance (styles prepared_P1) = Fin 15
   \<and> fle (Fin 15) (dim_distance (styles prepared_P1))
   \<and> text_insert_point (styles prepared_P1) = (Fin 0, fneg (fmul (Fin 2) (Fin 5)))
   \<and> flt (Fin 0) (get_num (numeric prepared_P1) ''width'' (Fin 0))
   \<and> calc_max_dim (numeric prepared_P1) = Fin 100
   \<and> fle (get_num (numeric prepared_P1) ''height'' (Fin 0)) (calc_max_dim (numeric prepared_P1))
   \<and> \<not> flt (Fin 0) (get_num (numeric prepared_bare) ''width'' (Fin 0))
   \<and> calc_max_dim (numeric prepared_bare) = Fin 200
   \<and> char_height (styles prepared_bare) = Fin 8"
proof -
  note a = style_calculator_without_nan [OF prepare_example_P1]
  note b = style_calculator_without_nan [OF prepare_example_bare]
  have w: "get_num (numeric prepared_P1) ''width'' (Fin 0) = Fin 100"
    and h: "get_num (numeric prepared_P1) ''height'' (Fin 0) = Fin 50"
    and d: "get_num (numeric prepared_P1) ''diameter'' (Fin 0) = Fin 0"
    by (simp_all add: prepared_P1_def get_num_def)
  have pos: "flt (Fin 0) (Fin 100)" by (simp add: float_eval)
  have m: "calc_max_dim (numeric prepared_P1) = Fin 100"
    by (simp add: prepared_P1_def all_eval)
  have bare: "get_num (numeric prepared_bare) ''width'' (Fin 0) = Fin 0"
    "get_num (numeric prepared_bare) ''height'' (Fin 0) = Fin 0"
    "get_num (numeric prepared_bare) ''diameter'' (Fin 0) = Fin 0"
    by (simp_all add: prepared_bare_def get_num_def)
  have npos: "\<not> flt (Fin 0) (Fin 0)" by (simp add: float_eval)
  have m200: "calc_max_dim (numeric prepared_bare) = Fin 200"
    using b npos by (simp add: bare)
  have hm: "fle (get_num (numeric prepared_P1) ''height'' (Fin 0)) (calc_max_dim (numeric prepared_P1))"
    using a pos by (simp add: w h d)
  have ch5: "char_height (styles prepared_P1) = Fin 5" by (simp add: prepared_P1_def)
  have dd: "dim_distance (styles prepared_P1) = Fin 15" by (simp add: prepared_P1_def)
  have ch8: "char_height (styles prepared_bare) = Fin 8" by (simp add: prepared_bare_def)
  show ?thesis
    using a prepare_example_P1 prepare_example_bare m m200 hm ch5 dd ch8 pos npos
    by (simp add: w bare)
qed

text \<open>
  With a nan among the dimensions the result of \<^verbatim>\<open>max\<close> depends on the order of its
  arguments: a nan width is returned whatever the height, a nan height is passed over.
\<close>

lemma calc_max_dim_order:
  "calc_max_dim [(''width'', NaN), (''height'', Fin 1000)] = Fin 200"
  "calc_max_dim [(''width'', Fin 1000), (''height'', NaN)] = Fin 1000"
  by (simp_all add: calc_max_dim_def get_num_def py_max_three flt_def is_nan_def fval_def)

lemma prepare_example_nan_width:
  "prepare_data_for_dxf example_nan_width = Inr (Inr prepared_nan_width)"
  unfolding prepared_nan_width_def
proof (rule prepare_returns)
  let ?nums = "[(''width'', NaN), (''height'', Fin 1000)]"
  show "translate_keys example_nan_width = example_nan_width"
    by (simp add: example_nan_width_def all_eval)
  show "truthy (get_raw example_nan_width ''part_name'' RNone)"
    by (simp add: example_nan_width_def get_raw_def truthy_def)
  show "truthy (get_raw example_nan_width ''shape'' RNone)"
    by (simp add: example_nan_width_def get_raw_def truthy_def)
  have w: "to_float RNan (Fin 0) = NaN" and h: "to_float (RStr ''1000'') (Fin 0) = Fin 1000"
    by (simp_all add: to_float_def py_str_def string_eval float_eval)
  show "coerce_numeric example_nan_width = ?nums"
    by (simp add: example_nan_width_def coerce_numeric_def numeric_keys_def numeric_default_def
        List.map_filter_simps w h)
  show "calc_char_height (calc_max_dim ?nums) = Fin 8"
    by (simp add: calc_max_dim_order styles_of_200)
  show "color_of example_nan_width ''contour_color'' 7 = Inr 7"
    by (rule colors_default) (simp_all add: example_nan_width_def)
  show "color_of example_nan_width ''holes_color'' 1 = Inr 1"
    by (rule colors_default) (simp_all add: example_nan_width_def)
  show "color_of example_nan_width ''text_color'' 2 = Inr 2"
    by (rule colors_default) (simp_all add: example_nan_width_def)
  show "flag_of example_nan_width ''include_dims'' = False"
    by (simp add: example_nan_width_def all_eval)
  show "py_max (Fin 15) [fmul (Fin 8) (Fin 3)] = Fin 24" by (rule styles_of_200)
  show "fmul (fneg (Fin 8)) (Fin 2) = Fin (- 16)" by (rule styles_of_200)
  show "calc_text_lines example_nan_width ?nums = None"
    by (simp add: example_nan_width_def all_eval)
qed

text \<open>
  Claim C5 says that \<open>max_dim\<close> is the greatest of width, height and diameter, with 200
  in its place only when no dimension is positive, and that
  \<open>char_height = clamp(max_dim / 25, 5, 35)\<close>. For the row with an empty width cell and the
  height 1000 that is \<open>max_dim = 1000\<close> and \<open>char_height = clamp(40, 5, 35) = 35\<close>.
  The code prepares the row with the width nan, takes 200 for \<open>max_dim\<close> although the
  height is positive, and sets \<open>char_height = 8\<close>.
\<close>

theorem style_calculator_nan_width:
  "prepare_data_for_dxf example_nan_width = Inr (Inr prepared_nan_width)
   \<and> get_num (numeric prepared_nan_width) ''width'' (Fin 0) = NaN
   \<and> get_num (numeric prepared_nan_width) ''height'' (Fin 0) = Fin 1000
   \<and> flt (Fin 0) (get_num (numeric prepared_nan_width) ''height'' (Fin 0))
   \<and> calc_max_dim (numeric prepared_nan_width) = Fin 200
   \<and> char_height (styles prepared_nan_width) = Fin 8
   \<and> spec_clamp (fdiv (Fin 1000) 25) (Fin 5) (Fin 35) = Fin 35"
proof -
  have g: "get_num (numeric prepared_nan_width) ''width'' (Fin 0) = NaN"
    "get_num (numeric prepared_nan_width) ''height'' (Fin 0) = Fin 1000"
    by (simp_all add: prepared_nan_width_def get_num_def)
  have pos: "flt (Fin 0) (Fin 1000)" by (simp add: flt_def is_nan_def fval_def)
  have m: "calc_max_dim (numeric prepared_nan_width) = Fin 200"
    by (simp add: prepared_nan_width_def calc_max_dim_order)
  have ch: "char_height (styles prepared_nan_width) = Fin 8"
    by (simp add: prepared_nan_width_def)
  have "calc_char_height (Fin 1000) = Fin 35" by (simp add: all_eval)
  then have c: "spec_clamp (fdiv (Fin 1000) 25) (Fin 5) (Fin 35) = Fin 35"
    by (simp add: calc_char_height_clamp)
  show ?thesis
    using prepare_example_nan_width m ch c pos by (simp add: g)
qed

subsection \<open>C6: the boolean options\<close>

lemma flag_of_spec: "flag_of es k = spec_option (map_of es k)"
  by (simp add: flag_of_def spec_option_def get_raw_def truthy_tokens_def py_lower_def py_str_def
      split: option.splits)

lemma calc_text_lines_None: "(calc_text_lines es nums \<noteq> None) = flag_of es ''include_text_info''"
  by (simp add: calc_text_lines_def split: sum.splits)

text \<open>
  Claim C6. For both options, \<open>include_dims\<close> and \<open>include_text_info\<close>, and for every
  value: the option is true exactly when the string form of the value, lowercased, is
  one of \<open>true\<close>, \<open>on\<close>, \<open>1\<close>, \<open>sim\<close>; any other value, and an absent key, is false.
  (The option \<open>include_text_info\<close> is on exactly when step 5 stores text lines.)
\<close>

theorem boolean_options:
  assumes "prepare_data_for_dxf raw = Inr (Inr p)"
  shows "include_dims (styles p) = spec_option (map_of (translate_keys raw) ''include_dims'')
    \<and> (text_lines p \<noteq> None) = spec_option (map_of (translate_keys raw) ''include_text_info'')"
proof -
  note f = prepare_fields [OF assms]
  show ?thesis
    by (simp only: f(6) f(7) calc_text_lines_None flag_of_spec f(1) simp_thms)
qed

theorem boolean_options_witness:
  "prepare_data_for_dxf example_flags = Inr (Inr prepared_flags)
   \<and> map_of (translate_keys example_flags) ''include_dims'' = Some (RStr ''SIM'')
   \<and> include_dims (styles prepared_flags)
   \<and> spec_option (Some (RStr ''SIM''))
   \<and> map_of (translate_keys example_flags) ''include_text_info'' = Some (RStr ''off'')
   \<and> text_lines prepared_flags = None
   \<and> \<not> spec_option (Some (RStr ''off''))"
proof -
  note a = boolean_options [OF prepare_example_flags]
  have e: "translate_keys example_flags = entries prepared_flags"
    using prepare_fields(1) [OF prepare_example_flags] by simp
  have d: "map_of (entries prepared_flags) ''include_dims'' = Some (RStr ''SIM'')"
    and t: "map_of (entries prepared_flags) ''include_text_info'' = Some (RStr ''off'')"
    by (simp_all add: prepared_flags_def)
  have i: "include_dims (styles prepared_flags)" and l: "text_lines prepared_flags = None"
    by (simp_all add: prepared_flags_def)
  show ?thesis
    using a prepare_example_flags i l by (simp add: e d t)
qed

section \<open>Facts about the drawing\<close>

lemma foldl_add_entity:
  "foldl (\<lambda>d x. add_entity (f x) d) doc xs = doc\<lparr>entities := entities doc @ map f xs\<rparr>"
  by (induction xs arbitrary: doc) (simp_all add: add_entity_def)

lemma add_text_lines_doc:
  "add_text_lines st ls doc =
     doc\<lparr>entities := entities doc @
       map (\<lambda>(i, line). Text line ''TEXTO'' (char_height st)
              (fst (text_insert_point st),
               fsub (snd (text_insert_point st))
                 (fmul (float_of_int (int i)) (fmul (char_height st) (Fin (3 / 2))))))
         (enumerate 0 ls)\<rparr>"
  unfolding add_text_lines_def Let_def
  using foldl_add_entity
    [of "\<lambda>(i, line). Text line ''TEXTO'' (char_height st)
              (fst (text_insert_point st),
               fsub (snd (text_insert_point st))
                 (fmul (float_of_int (int i)) (fmul (char_height st) (Fin (3 / 2)))))"
       doc "enumerate 0 ls"]
  by (simp add: case_prod_unfold)

lemma polylines_add_text_lines: "polylines (add_text_lines st ls doc) = polylines doc"
  by (simp add: add_text_lines_doc polylines_def is_polyline_def filter_empty_conv
      case_prod_unfold)

lemma polylines_add_rectangle_dims: "polylines (add_rectangle_dims st w h doc) = polylines doc"
  by (simp add: add_rectangle_dims_def add_entity_def polylines_def is_polyline_def)

lemma layers_add_text_lines: "layers (add_text_lines st ls doc) = layers doc"
  by (simp add: add_text_lines_doc)

lemma layers_add_rectangle_dims: "layers (add_rectangle_dims st w h doc) = layers doc"
  by (simp add: add_rectangle_dims_def add_entity_def)


lemma build_rectangle:
  assumes "map_of (entries p) ''shape'' = Some (RStr ''rectangle'')"
    and "map_of (numeric p) ''width'' = Some w"
    and "map_of (numeric p) ''height'' = Some h"
  shows "polylines (fst (build_drawing p)) =
           [LWPolyline [(Fin 0, Fin 0), (w, Fin 0), (w, h), (Fin 0, h)] True ''CONTORNO'']"
    and "layers (fst (build_drawing p)) = layers_before_shape p"
    and "snd (build_drawing p) =
           (if text_truthy (get_text_lines p) \<and> iter_lines (get_text_lines p) = Inl TypeError
            then Inl DrawingError
            else Inr (sanitize (str_get (map_of (entries p) ''part_name'')) @ ''.dxf''))"
proof -
  have it: "iter_lines t = Inl e \<Longrightarrow> e = TypeError" for t e
    by (auto simp: iter_lines_def split: text_value.splits rawval.splits)
  show "polylines (fst (build_drawing p)) =
           [LWPolyline [(Fin 0, Fin 0), (w, Fin 0), (w, h), (Fin 0, h)] True ''CONTORNO'']"
    using assms
    by (auto simp: build_drawing_def Let_def polylines_add_text_lines
        polylines_add_rectangle_dims split: sum.splits)
       (simp_all add: polylines_def is_polyline_def add_entity_def new_layer_def
        new_dimstyle_def new_document_def)
  show "layers (fst (build_drawing p)) = layers_before_shape p"
    using assms
    by (auto simp: build_drawing_def Let_def layers_add_text_lines layers_add_rectangle_dims
        layers_before_shape_def add_entity_def new_layer_def new_dimstyle_def new_document_def
        split: sum.splits)
  show "snd (build_drawing p) =
           (if text_truthy (get_text_lines p) \<and> iter_lines (get_text_lines p) = Inl TypeError
            then Inl DrawingError
            else Inr (sanitize (str_get (map_of (entries p) ''part_name'')) @ ''.dxf''))"
    using assms it
    by (auto simp: build_drawing_def Let_def split: sum.splits)
qed

lemma create_from_build:
  "create_dxf_drawing p =
     (case snd (build_drawing p) of
        Inl e \<Rightarrow> Inl e
      | Inr name \<Rightarrow> Inr (fst (build_drawing p), name))"
  by (cases "build_drawing p") (simp add: create_dxf_drawing_def split: sum.splits)

subsection \<open>The file name\<close>

lemma sanitize_kept: "kept c \<Longrightarrow> sanitize (c # cs) = c # sanitize cs"
  by simp

lemma sanitize_all_kept: "list_all kept s \<Longrightarrow> sanitize s = s"
  by (induction s) simp_all

lemma set_sanitize: "c \<in> set (sanitize s) \<Longrightarrow> (c \<in> set s \<and> kept c) \<or> c = CHR ''_''"
proof (induction s rule: sanitize.induct)
  case 1
  then show ?case by simp
next
  case (2 x xs)
  show ?case
  proof (cases "kept x")
    case True
    with 2 show ?thesis by auto
  next
    case False
    with 2 have "c = CHR ''_'' \<or> c \<in> set (sanitize (dropWhile (\<lambda>x. \<not> kept x) xs))"
      by simp
    then show ?thesis
      using 2(2) [OF False] by (auto dest: set_dropWhileD)
  qed
qed

lemma dropWhile_append_run:
  assumes "list_all (\<lambda>c. \<not> kept c) r" and "b = [] \<or> kept (hd b)"
  shows "dropWhile (\<lambda>x. \<not> kept x) (r @ b) = b"
proof -
  have "dropWhile (\<lambda>x. \<not> kept x) (r @ b) = dropWhile (\<lambda>x. \<not> kept x) b"
    using assms(1) by (simp add: dropWhile_append2 list_all_iff)
  also have "\<dots> = b"
    using assms(2) by (cases b) simp_all
  finally show ?thesis .
qed

lemma sanitize_run:
  assumes "r \<noteq> []" and "list_all (\<lambda>c. \<not> kept c) r" and "b = [] \<or> kept (hd b)"
  shows "sanitize (r @ b) = CHR ''_'' # sanitize b"
proof (cases r)
  case Nil
  with assms(1) show ?thesis by simp
next
  case (Cons c cs)
  with assms(2) have c: "\<not> kept c" and cs: "list_all (\<lambda>c. \<not> kept c) cs" by simp_all
  show ?thesis
    using c dropWhile_append_run [OF cs assms(3)] by (simp add: Cons)
qed

lemma sanitize_append:
  assumes "a = [] \<or> kept (last a)"
  shows "sanitize (a @ s) = sanitize a @ sanitize s"
  using assms
proof (induction a rule: sanitize.induct)
  case 1
  then show ?case by simp
next
  case (2 x xs)
  show ?case
  proof (cases "kept x")
    case True
    have "xs = [] \<or> kept (last xs)" using 2(3) by (cases xs) auto
    with 2(1) [OF True] True show ?thesis by simp
  next
    case False
    let ?P = "\<lambda>x. \<not> kept x"
    have ne: "xs \<noteq> []" using 2(3) False by auto
    then have lk: "kept (last xs)" using 2(3) by simp
    then have ex: "\<exists>y\<in>set xs. \<not> ?P y" using ne last_in_set by blast
    then obtain y where y: "y \<in> set xs" "\<not> ?P y" by blast
    have d: "dropWhile ?P (xs @ s) = dropWhile ?P xs @ s"
      using y by (rule dropWhile_append1)
    have dne: "dropWhile ?P xs \<noteq> []" using ex by (simp add: dropWhile_eq_Nil_conv)
    have "last (dropWhile ?P xs) = last xs"
      using dne by (metis last_appendR takeWhile_dropWhile_id)
    then have "dropWhile ?P xs = [] \<or> kept (last (dropWhile ?P xs))" using lk by simp
    from 2(2) [OF False this] False d show ?thesis by simp
  qed
qed

lemma code_char: "(code c = code d) = (c = d)"
  by (simp add: code_def)

lemma kept_ascii: "code c < 128 \<Longrightarrow> kept c = spec_allowed c"
  using code_char [of c "CHR ''_''"] code_char [of c "CHR ''.''"] code_char [of c "CHR ''-''"]
  by (auto simp: kept_def is_word_def spec_allowed_def Let_def code_def)

lemma sanitize_ascii:
  assumes "is_ascii s"
  shows "list_all spec_allowed (sanitize s)"
proof -
  have "spec_allowed c" if "c \<in> set (sanitize s)" for c
  proof -
    from set_sanitize [OF that] show ?thesis
    proof
      assume "c \<in> set s \<and> kept c"
      then show ?thesis using assms kept_ascii [of c] by (auto simp: is_ascii_def list_all_iff)
    next
      assume "c = CHR ''_''"
      then show ?thesis by (simp add: spec_allowed_def)
    qed
  qed
  then show ?thesis by (simp add: list_all_iff)
qed

lemma kept_underscore: "kept (CHR ''_'')"
  by (simp add: kept_def is_word_def code_def)

lemma sanitize_all_kept_chars: "list_all kept (sanitize s)"
  using set_sanitize [of _ s] kept_underscore by (auto simp: list_all_iff)

lemma create_name:
  assumes "create_dxf_drawing p = Inr (doc, name)"
  shows "name = sanitize (str_get (map_of (entries p) ''part_name'')) @ ''.dxf''"
  using assms
  by (auto simp: create_dxf_drawing_def build_drawing_def Let_def
      split: if_splits option.splits sum.splits)

subsection \<open>More example records, prepared and drawn\<close>


lemma styles_of_100:
  "calc_char_height (calc_max_dim [(''width'', Fin 100), (''height'', Fin 50)]) = Fin 5"
  "py_max (Fin 15) [fmul (Fin 5) (Fin 3)] = Fin 15"
  "fmul (fneg (Fin 5)) (Fin 2) = Fin (- 10)"
  by (simp_all add: all_eval)

lemma prepare_example_part: "prepare_data_for_dxf example_part = Inr (Inr prepared_part)"
  unfolding prepared_part_def
proof (rule prepare_returns)
  show "translate_keys example_part = example_part" by (simp add: example_part_def all_eval)
  show "truthy (get_raw example_part ''part_name'' RNone)" by (simp add: example_part_def all_eval)
  show "truthy (get_raw example_part ''shape'' RNone)" by (simp add: example_part_def all_eval)
  show "coerce_numeric example_part = [(''width'', Fin 100), (''height'', Fin 50)]"
    by (simp add: example_part_def all_eval)
  show "calc_char_height (calc_max_dim [(''width'', Fin 100), (''height'', Fin 50)]) = Fin 5"
    by (rule styles_of_100)
  show "color_of example_part ''contour_color'' 7 = Inr 7"
    by (rule colors_default) (simp_all add: example_part_def)
  show "color_of example_part ''holes_color'' 1 = Inr 1"
    by (rule colors_default) (simp_all add: example_part_def)
  show "color_of example_part ''text_color'' 2 = Inr 2"
    by (rule colors_default) (simp_all add: example_part_def)
  show "flag_of example_part ''include_dims'' = False" by (simp add: example_part_def all_eval)
  show "py_max (Fin 15) [fmul (Fin 5) (Fin 3)] = Fin 15" by (rule styles_of_100)
  show "fmul (fneg (Fin 5)) (Fin 2) = Fin (- 10)" by (rule styles_of_100)
  show "calc_text_lines example_part [(''width'', Fin 100), (''height'', Fin 50)] = None"
    by (simp add: example_part_def all_eval)
qed

lemma sanitize_examples:
  "sanitize ''P1'' = ''P1''"
  "sanitize ''Part #1/2024'' = ''Part_1_2024''"
  "sanitize ''Part'' = ''Part''"
  "sanitize ''1/2024'' = ''1_2024''"
  by (simp_all add: kept_def is_word_def code_def)

lemma draw_example_P1:
  "create_dxf_drawing prepared_P1 = Inr (fst (build_drawing prepared_P1), ''P1.dxf'')"
proof -
  have "snd (build_drawing prepared_P1) = Inr (''P1.dxf'')"
    by (subst build_rectangle(3) [where w = "Fin 100" and h = "Fin 50"])
       (simp_all add: prepared_P1_def example_P1_def get_text_lines_def text_truthy_def
          str_get_def py_str_def kept_def is_word_def code_def)
  then show ?thesis by (simp add: create_from_build)
qed

lemma draw_example_part:
  "create_dxf_drawing prepared_part = Inr (fst (build_drawing prepared_part), ''Part_1_2024.dxf'')"
proof -
  have "snd (build_drawing prepared_part) = Inr (''Part_1_2024.dxf'')"
    by (subst build_rectangle(3) [where w = "Fin 100" and h = "Fin 50"])
       (simp_all add: prepared_part_def example_part_def get_text_lines_def text_truthy_def
          str_get_def py_str_def kept_def is_word_def code_def)
  then show ?thesis by (simp add: create_from_build)
qed

subsection \<open>C1: the contour of a rectangle\<close>

text \<open>
  Claim C1. For every prepared record with shape \<open>rectangle\<close> and coerced width \<open>w\<close> and
  height \<open>h\<close>, the drawing holds exactly one lightweight polyline: closed, with the four
  vertices \<open>(0,0)\<close>, \<open>(w,0)\<close>, \<open>(w,h)\<close>, \<open>(0,h)\<close> in that order, on the contour layer
  (\<^verbatim>\<open>CONTORNO\<close>), a layer of the document; and that document is what the function
  returns, unless the raw record itself had a \<^verbatim>\<open>text_lines\<close> entry that cannot be
  iterated. The record \<open>P1\<close> of the specification (width 100, height 50) is the witness.
\<close>

theorem rectangle_contour:
  assumes "map_of (entries p) ''shape'' = Some (RStr ''rectangle'')"
    and "map_of (numeric p) ''width'' = Some w"
    and "map_of (numeric p) ''height'' = Some h"
  shows "polylines (fst (build_drawing p)) =
           [LWPolyline [(Fin 0, Fin 0), (w, Fin 0), (w, h), (Fin 0, h)] True ''CONTORNO'']
    \<and> \<lparr>layer_name = ''CONTORNO'', layer_color = contour_color (styles p)\<rparr>
        \<in> set (layers (fst (build_drawing p)))
    \<and> create_dxf_drawing p =
        (if text_truthy (get_text_lines p) \<and> iter_lines (get_text_lines p) = Inl TypeError
         then Inl DrawingError
         else Inr (fst (build_drawing p),
                   sanitize (str_get (map_of (entries p) ''part_name'')) @ ''.dxf''))
    \<and> (text_lines p \<noteq> None \<or> map_of (entries p) ''text_lines'' = None \<longrightarrow>
        create_dxf_drawing p =
          Inr (fst (build_drawing p),
               sanitize (str_get (map_of (entries p) ''part_name'')) @ ''.dxf''))"
proof -
  note b = build_rectangle [OF assms]
  have c: "create_dxf_drawing p =
        (if text_truthy (get_text_lines p) \<and> iter_lines (get_text_lines p) = Inl TypeError
         then Inl DrawingError
         else Inr (fst (build_drawing p),
                   sanitize (str_get (map_of (entries p) ''part_name'')) @ ''.dxf''))"
    by (simp add: create_from_build b(3))
  have ok: "\<not> (text_truthy (get_text_lines p) \<and> iter_lines (get_text_lines p) = Inl TypeError)"
    if "text_lines p \<noteq> None \<or> map_of (entries p) ''text_lines'' = None"
    using that
    by (auto simp: get_text_lines_def text_truthy_def iter_lines_def split: option.splits)
  have l: "\<lparr>layer_name = ''CONTORNO'', layer_color = contour_color (styles p)\<rparr>
        \<in> set (layers (fst (build_drawing p)))"
    by (simp add: b(2) layers_before_shape_def)
  have c': "create_dxf_drawing p =
          Inr (fst (build_drawing p),
               sanitize (str_get (map_of (entries p) ''part_name'')) @ ''.dxf'')"
    if "text_lines p \<noteq> None \<or> map_of (entries p) ''text_lines'' = None"
    using ok [OF that] c by (simp only: if_False)
  from b(1) l c c' show ?thesis by blast
qed

theorem rectangle_contour_witness:
  "prepare_data_for_dxf example_P1 = Inr (Inr prepared_P1)
   \<and> map_of (entries prepared_P1) ''shape'' = Some (RStr ''rectangle'')
   \<and> map_of (numeric prepared_P1) ''width'' = Some (Fin 100)
   \<and> map_of (numeric prepared_P1) ''height'' = Some (Fin 50)
   \<and> map_of (entries prepared_P1) ''text_lines'' = None
   \<and> polylines (fst (build_drawing prepared_P1)) =
       [LWPolyline [(Fin 0, Fin 0), (Fin 100, Fin 0), (Fin 100, Fin 50), (Fin 0, Fin 50)] True
          ''CONTORNO'']
   \<and> \<lparr>layer_name = ''CONTORNO'', layer_color = 7\<rparr> \<in> set (layers (fst (build_drawing prepared_P1)))
   \<and> create_dxf_drawing prepared_P1 = Inr (fst (build_drawing prepared_P1), ''P1.dxf'')"
proof -
  have s: "map_of (entries prepared_P1) ''shape'' = Some (RStr ''rectangle'')"
    and w: "map_of (numeric prepared_P1) ''width'' = Some (Fin 100)"
    and h: "map_of (numeric prepared_P1) ''height'' = Some (Fin 50)"
    and t: "map_of (entries prepared_P1) ''text_lines'' = None"
    and c: "contour_color (styles prepared_P1) = 7"
    by (simp_all add: prepared_P1_def example_P1_def)
  note a = rectangle_contour [OF s w h]
  show ?thesis
    using a prepare_example_P1 s w h t draw_example_P1 by (simp add: c)
qed

subsection \<open>C8: a shape without a builder\<close>




subsection \<open>C7: the file name\<close>

text \<open>
  Claim C7, as the code has it. For every record that is drawn, the file name is the
  string form of \<open>part_name\<close> in which each longest run of characters other than word
  characters (letters, digits, the underscore), the point and the hyphen has become one
  underscore, followed by \<^verbatim>\<open>.dxf\<close>: a string of kept characters is left as it is, and a
  run between kept characters becomes one underscore. For a part name of ASCII
  characters the result has only the characters \<open>A\<close>-\<open>Z\<close>, \<open>a\<close>-\<open>z\<close>, \<open>0\<close>-\<open>9\<close>, point,
  underscore and hyphen.
\<close>

theorem file_name:
  assumes "create_dxf_drawing p = Inr (doc, name)"
  shows "name = sanitize (str_get (map_of (entries p) ''part_name'')) @ ''.dxf''
    \<and> list_all kept (sanitize (str_get (map_of (entries p) ''part_name'')))
    \<and> (is_ascii (str_get (map_of (entries p) ''part_name''))
        \<longrightarrow> list_all spec_allowed (sanitize (str_get (map_of (entries p) ''part_name''))))
    \<and> (\<forall>s. list_all kept s \<longrightarrow> sanitize s = s)
    \<and> (\<forall>a r b. (a = [] \<or> kept (last a)) \<and> r \<noteq> [] \<and> list_all (\<lambda>c. \<not> kept c) r
          \<and> (b = [] \<or> kept (hd b))
        \<longrightarrow> sanitize (a @ r @ b) = sanitize a @ CHR ''_'' # sanitize b)"
proof -
  have run: "sanitize (a @ r @ b) = sanitize a @ CHR ''_'' # sanitize b"
    if "a = [] \<or> kept (last a)" "r \<noteq> []" "list_all (\<lambda>c. \<not> kept c) r" "b = [] \<or> kept (hd b)"
    for a r b
    using sanitize_append [OF that(1), of "r @ b"] sanitize_run [OF that(2-4)] by simp
  show ?thesis
    using create_name [OF assms] sanitize_all_kept_chars sanitize_ascii sanitize_all_kept run
    by blast
qed

lemma part_name_runs:
  "kept (last ''Part'')" "list_all (\<lambda>c. \<not> kept c) '' #''" "kept (hd ''1/2024'')"
  "list_all kept ''Part''" "is_ascii ''Part #1/2024''" "list_all spec_allowed ''Part_1_2024''"
  by (simp_all add: kept_def is_word_def code_def is_ascii_def spec_allowed_def)

theorem file_name_witness:
  "create_dxf_drawing prepared_part = Inr (fst (build_drawing prepared_part), ''Part_1_2024.dxf'')
   \<and> str_get (map_of (entries prepared_part) ''part_name'') = ''Part #1/2024''
   \<and> ''Part_1_2024.dxf'' = sanitize ''Part #1/2024'' @ ''.dxf''
   \<and> is_ascii ''Part #1/2024''
   \<and> list_all spec_allowed (sanitize ''Part #1/2024'')
   \<and> list_all kept ''Part'' \<and> sanitize ''Part'' = ''Part''
   \<and> kept (last ''Part'') \<and> list_all (\<lambda>c. \<not> kept c) '' #'' \<and> kept (hd ''1/2024'')
   \<and> sanitize (''Part'' @ '' #'' @ ''1/2024'') = sanitize ''Part'' @ CHR ''_'' # sanitize ''1/2024''"
proof -
  note a = file_name [OF draw_example_part]
  have n: "str_get (map_of (entries prepared_part) ''part_name'') = ''Part #1/2024''"
    by (simp add: prepared_part_def example_part_def str_get_def py_str_def)
  have r: "sanitize (''Part'' @ '' #'' @ ''1/2024'') = sanitize ''Part'' @ CHR ''_'' # sanitize ''1/2024''"
    using a part_name_runs(1-3) by blast
  have k: "sanitize ''Part'' = ''Part''"
    using a part_name_runs(4) by blast
  have s: "list_all spec_allowed (sanitize ''Part #1/2024'')"
    using a part_name_runs(5) unfolding n by blast
  have e: "''Part_1_2024.dxf'' = sanitize ''Part #1/2024'' @ ''.dxf''"
    using a unfolding n by blast
  from draw_example_part n e part_name_runs s k r show ?thesis by blast
qed

text \<open>
  The claim as stated fails: in \<^verbatim>\<open>Part #1/2024\<close> the space and the hash are two
  disallowed characters and become one underscore, not two.
\<close>

theorem file_name_counterexample:
  "prepare_data_for_dxf example_part = Inr (Inr prepared_part)
   \<and> create_dxf_drawing prepared_part = Inr (fst (build_drawing prepared_part), ''Part_1_2024.dxf'')
   \<and> spec_replace_each ''Part #1/2024'' @ ''.dxf'' = ''Part__1_2024.dxf''
   \<and> ''Part_1_2024.dxf'' \<noteq> spec_replace_each ''Part #1/2024'' @ ''.dxf''"
proof -
  have "spec_replace_each ''Part #1/2024'' = ''Part__1_2024''"
    by (simp add: spec_replace_each_def spec_allowed_def code_def)
  then show ?thesis
    using prepare_example_part draw_example_part by simp
qed

text \<open>A letter beyond ASCII is a word character: it is kept, and is not of the spec's set.\<close>

lemma sanitize_keeps_latin_letter:
  "sanitize [CHR ''P'', CHR ''E'', CHR 0xC7, CHR ''A''] = [CHR ''P'', CHR ''E'', CHR 0xC7, CHR ''A'']
   \<and> \<not> spec_allowed (CHR 0xC7)"
  by (simp add: kept_def is_word_def code_def spec_allowed_def)

section \<open>Facts about the text block\<close>

lemma py_int_finite: "is_finite x \<Longrightarrow> py_int x = Inr (py_trunc (fval x))"
  by (cases x) (simp_all add: py_int_def is_finite_def fval_def py_trunc_def)

lemma py_int_not_finite: "\<not> is_finite x \<Longrightarrow> \<exists>e. py_int x = Inl e"
  by (cases x) (simp_all add: py_int_def is_finite_def)

lemma weight_lines_area: "fle (calc_area es nums) (Fin 0) \<Longrightarrow> weight_lines es nums = Inl ValueError"
  by (simp add: weight_lines_def Let_def)

lemma weight_lines_quantity:
  assumes "\<not> fle (calc_area es nums) (Fin 0)"
    and "py_int (get_num nums ''part_quantity'' (Fin 1)) = Inl e"
  shows "weight_lines es nums = Inl e"
  using assms by (simp add: weight_lines_def Let_def)

lemma weight_lines_returns:
  assumes "calc_area es nums = area" and "\<not> fle area (Fin 0)"
    and "fmul (fdiv area 1000000) (fdiv (get_num nums ''material_thickness'' (Fin 0)) 1000) = vol"
    and "fmul vol (get_num nums ''material_density'' (Fin 7850)) = unit"
    and "py_int (get_num nums ''part_quantity'' (Fin 1)) = Inr q"
    and "fmul unit (float_of_int q) = tot"
  shows "weight_lines es nums =
     Inr [py_upper (py_str (get_raw es ''part_name'' (RStr []))),
          ustr (''Espessura: '' @ fmt_fixed 2 (get_num nums ''material_thickness'' (Fin 0)) @
            '' mm  (Qtd: '' @ fmt_02d q @ ''x)''),
          ustr (''Peso Unitario: '' @ spec_decimal_comma 3 unit @ '' Kg''),
          ustr (''Peso Total: '' @ spec_decimal_comma 3 tot @ '' Kg'')]"
  using assms by (simp add: weight_lines_def Let_def spec_decimal_comma_def py_replace_def)

lemma calc_text_lines_on:
  assumes "flag_of es ''include_text_info''"
  shows "weight_lines es nums = Inr ls \<Longrightarrow> calc_text_lines es nums = Some ls"
    and "weight_lines es nums = Inl e \<Longrightarrow> calc_text_lines es nums = Some (error_lines es)"
  using assms by (simp_all add: calc_text_lines_def)

subsection \<open>C3: the four weight lines\<close>

text \<open>
  Claim C3, as the code has it. Whenever annotation is enabled, the rectangle's area
  \<open>width * height\<close> is positive and the quantity (1 when absent) is finite, that is
  neither nan nor infinite, the weight calculator stores exactly four text lines: the
  uppercased part name; the line of thickness (two decimals) and quantity (the quantity
  truncated to an integer, two digits); the unit weight \<open>volume * density\<close>, with
  \<open>volume = (area / 1e6) * (thickness / 1000)\<close> and the density 7850 when absent, formatted
  to three decimals with a decimal comma; and the total weight \<open>unit weight * quantity\<close>,
  formatted likewise.
\<close>

theorem weight_text_lines:
  assumes "prepare_data_for_dxf raw = Inr (Inr p)"
    and "flag_of (entries p) ''include_text_info''"
    and "map_of (entries p) ''shape'' = Some (RStr ''rectangle'')"
    and "flt (Fin 0)
           (fmul (get_num (numeric p) ''width'' (Fin 0)) (get_num (numeric p) ''height'' (Fin 0)))"
    and "is_finite (get_num (numeric p) ''part_quantity'' (Fin 1))"
  shows "(let area = fmul (get_num (numeric p) ''width'' (Fin 0))
                            (get_num (numeric p) ''height'' (Fin 0));
               thickness = get_num (numeric p) ''material_thickness'' (Fin 0);
               density = get_num (numeric p) ''material_density'' (Fin 7850);
               quantity = py_trunc (fval (get_num (numeric p) ''part_quantity'' (Fin 1)));
               unit_weight = fmul (spec_volume_m3 area thickness) density;
               total_weight = fmul unit_weight (float_of_int quantity)
          in text_lines p = Some
               [py_upper (py_str (get_raw (entries p) ''part_name'' (RStr []))),
                ustr (''Espessura: '' @ fmt_fixed 2 thickness @ '' mm  (Qtd: '' @
                  fmt_02d quantity @ ''x)''),
                ustr (''Peso Unitario: '' @ spec_decimal_comma 3 unit_weight @ '' Kg''),
                ustr (''Peso Total: '' @ spec_decimal_comma 3 total_weight @ '' Kg'')])
    \<and> map_option length (text_lines p) = Some 4"
proof -
  note f = prepare_fields [OF assms(1)]
  let ?es = "entries p" and ?nums = "numeric p"
  let ?area = "fmul (get_num ?nums ''width'' (Fin 0)) (get_num ?nums ''height'' (Fin 0))"
  have area: "calc_area ?es ?nums = ?area"
    using assms(3) by (simp add: calc_area_def)
  have pos: "\<not> fle ?area (Fin 0)"
    using assms(4) by (rule flt_imp_not_fle)
  note w = weight_lines_returns [OF area pos refl refl py_int_finite [OF assms(5)] refl]
  have "text_lines p = calc_text_lines ?es ?nums" by (rule f(7))
  also note calc_text_lines_on(1) [OF assms(2) w]
  finally show ?thesis
    by (simp add: Let_def spec_volume_m3_def)
qed

lemma weight_arith:
  "fmul (Fin 1000) (Fin 1000) = Fin 1000000"
  "\<not> fle (Fin 1000000) (Fin 0)"
  "flt (Fin 0) (Fin 1000000)"
  "fmul (fdiv (Fin 1000000) 1000000) (fdiv (Fin 10) 1000)
     = Fin (5764607523034235 / 576460752303423488)"
  "fmul (Fin (5764607523034235 / 576460752303423488)) (Fin 7850) = Fin (157 / 2)"
  "py_int (Fin 2) = Inr 2" "py_int (Fin 1) = Inr 1" "py_int NaN = Inl ValueError"
  "fmul (Fin (157 / 2)) (float_of_int 2) = Fin 157"
  "fmul (Fin (157 / 2)) (float_of_int 1) = Fin (157 / 2)"
  by (simp_all add: float_eval)

lemma weight_format:
  "fmt_fixed 2 (Fin 10) = ''10.00''" "fmt_02d 2 = ''02''" "fmt_02d 1 = ''01''"
  "spec_decimal_comma 3 (Fin (157 / 2)) = ''78,500''"
  "spec_decimal_comma 3 (Fin 157) = ''157,000''"
  by (simp_all add: spec_decimal_comma_def float_eval string_eval eval_nat_numeral)

lemma styles_of_1000:
  "calc_char_height (Fin 1000) = Fin 35"
  "py_max (Fin 15) [fmul (Fin 35) (Fin 3)] = Fin 105"
  "fmul (fneg (Fin 35)) (Fin 2) = Fin (- 70)"
  by (simp_all add: all_eval)

lemma parse_examples:
  "to_float (RStr ''1000'') (Fin 0) = Fin 1000"
  "to_float (RStr ''10'') (Fin 0) = Fin 10"
  "to_float (RStr ''7850'') (Fin 0) = Fin 7850"
  "to_float (RStr ''2'') (Fin 1) = Fin 2"
  "to_float (RStr ''nan'') (Fin 1) = NaN"
  "to_float (RStr ''nan'') (Fin 0) = NaN"
  "to_float RNan (Fin 1) = NaN"
  "to_float RNan (Fin 0) = NaN"
  "to_float (RStr ''50'') (Fin 0) = Fin 50"
  "to_float (RStr ''0'') (Fin 0) = Fin 0"
  "to_float (RStr ''10,5'') d = Fin (21 / 2)"
  "to_float (RStr []) d = d"
  "to_float RNone d = d"
  "to_float (RInt 100) (Fin 0) = Fin 100"
  "to_float (RInt 50) (Fin 0) = Fin 50"
  by (simp_all add: to_float_def py_str_def string_eval float_eval)

lemma prepare_example_weight: "prepare_data_for_dxf example_weight = Inr (Inr prepared_weight)"
  unfolding prepared_weight_def
proof (rule prepare_returns)
  let ?nums = "[(''width'', Fin 1000), (''height'', Fin 1000), (''material_thickness'', Fin 10),
                (''material_density'', Fin 7850), (''part_quantity'', Fin 2)]"
  show "translate_keys example_weight = example_weight" by (simp add: example_weight_def all_eval)
  show "truthy (get_raw example_weight ''part_name'' RNone)"
    by (simp add: example_weight_def get_raw_def truthy_def)
  show "truthy (get_raw example_weight ''shape'' RNone)"
    by (simp add: example_weight_def get_raw_def truthy_def)
  show "coerce_numeric example_weight = ?nums"
    by (simp add: example_weight_def coerce_numeric_def numeric_keys_def numeric_default_def
        List.map_filter_simps parse_examples)
  show "calc_char_height (calc_max_dim ?nums) = Fin 35"
    by (simp add: calc_max_dim_def get_num_def py_max_three flt_def is_nan_def fval_def
        styles_of_1000)
  show "color_of example_weight ''contour_color'' 7 = Inr 7"
    by (rule colors_default) (simp_all add: example_weight_def)
  show "color_of example_weight ''holes_color'' 1 = Inr 1"
    by (rule colors_default) (simp_all add: example_weight_def)
  show "color_of example_weight ''text_color'' 2 = Inr 2"
    by (rule colors_default) (simp_all add: example_weight_def)
  show "flag_of example_weight ''include_dims'' = False"
    by (simp add: example_weight_def all_eval)
  show "py_max (Fin 15) [fmul (Fin 35) (Fin 3)] = Fin 105" by (rule styles_of_1000)
  show "fmul (fneg (Fin 35)) (Fin 2) = Fin (- 70)" by (rule styles_of_1000)
  have flag: "flag_of example_weight ''include_text_info''"
    by (simp add: example_weight_def all_eval)
  have area: "calc_area example_weight ?nums = Fin 1000000"
    by (simp add: calc_area_def example_weight_def get_num_def weight_arith)
  have vol: "fmul (fdiv (Fin 1000000) 1000000) (fdiv (get_num ?nums ''material_thickness'' (Fin 0)) 1000)
      = Fin (5764607523034235 / 576460752303423488)"
    by (simp add: get_num_def weight_arith)
  have unit: "fmul (Fin (5764607523034235 / 576460752303423488))
      (get_num ?nums ''material_density'' (Fin 7850)) = Fin (157 / 2)"
    by (simp add: get_num_def weight_arith)
  have q: "py_int (get_num ?nums ''part_quantity'' (Fin 1)) = Inr 2"
    by (simp add: get_num_def weight_arith)
  note w = weight_lines_returns [OF area weight_arith(2) vol unit q weight_arith(9)]
  have name: "py_upper (py_str (get_raw example_weight ''part_name'' (RStr []))) = ustr ''P1''"
    by (simp add: example_weight_def get_raw_def py_str_def py_upper_examples)
  have t: "get_num ?nums ''material_thickness'' (Fin 0) = Fin 10" by (simp add: get_num_def)
  show "calc_text_lines example_weight ?nums =
      Some (map ustr [''P1'', ''Espessura: 10.00 mm  (Qtd: 02x)'', ''Peso Unitario: 78,500 Kg'',
            ''Peso Total: 157,000 Kg''])"
    using calc_text_lines_on(1) [OF flag w] by (simp add: name t weight_format)
qed

lemma prepare_example_no_density:
  "prepare_data_for_dxf example_no_density = Inr (Inr prepared_no_density)"
  unfolding prepared_no_density_def
proof (rule prepare_returns)
  let ?nums = "[(''width'', Fin 1000), (''height'', Fin 1000), (''material_thickness'', Fin 10)]"
  show "translate_keys example_no_density = example_no_density"
    by (simp add: example_no_density_def all_eval)
  show "truthy (get_raw example_no_density ''part_name'' RNone)"
    by (simp add: example_no_density_def get_raw_def truthy_def)
  show "truthy (get_raw example_no_density ''shape'' RNone)"
    by (simp add: example_no_density_def get_raw_def truthy_def)
  show "coerce_numeric example_no_density = ?nums"
    by (simp add: example_no_density_def coerce_numeric_def numeric_keys_def numeric_default_def
        List.map_filter_simps parse_examples)
  show "calc_char_height (calc_max_dim ?nums) = Fin 35"
    by (simp add: calc_max_dim_def get_num_def py_max_three flt_def is_nan_def fval_def
        styles_of_1000)
  show "color_of example_no_density ''contour_color'' 7 = Inr 7"
    by (rule colors_default) (simp_all add: example_no_density_def)
  show "color_of example_no_density ''holes_color'' 1 = Inr 1"
    by (rule colors_default) (simp_all add: example_no_density_def)
  show "color_of example_no_density ''text_color'' 2 = Inr 2"
    by (rule colors_default) (simp_all add: example_no_density_def)
  show "flag_of example_no_density ''include_dims'' = False"
    by (simp add: example_no_density_def all_eval)
  show "py_max (Fin 15) [fmul (Fin 35) (Fin 3)] = Fin 105" by (rule styles_of_1000)
  show "fmul (fneg (Fin 35)) (Fin 2) = Fin (- 70)" by (rule styles_of_1000)
  have flag: "flag_of example_no_density ''include_text_info''"
    by (simp add: example_no_density_def all_eval)
  have area: "calc_area example_no_density ?nums = Fin 1000000"
    by (simp add: calc_area_def example_no_density_def get_num_def weight_arith)
  have vol: "fmul (fdiv (Fin 1000000) 1000000) (fdiv (get_num ?nums ''material_thickness'' (Fin 0)) 1000)
      = Fin (5764607523034235 / 576460752303423488)"
    by (simp add: get_num_def weight_arith)
  have unit: "fmul (Fin (5764607523034235 / 576460752303423488))
      (get_num ?nums ''material_density'' (Fin 7850)) = Fin (157 / 2)"
    by (simp add: get_num_def weight_arith)
  have q: "py_int (get_num ?nums ''part_quantity'' (Fin 1)) = Inr 1"
    by (simp add: get_num_def weight_arith)
  note w = weight_lines_returns [OF area weight_arith(2) vol unit q weight_arith(10)]
  have name: "py_upper (py_str (get_raw example_no_density ''part_name'' (RStr []))) = ustr ''P1''"
    by (simp add: example_no_density_def get_raw_def py_str_def py_upper_examples)
  have t: "get_num ?nums ''material_thickness'' (Fin 0) = Fin 10" by (simp add: get_num_def)
  show "calc_text_lines example_no_density ?nums =
      Some (map ustr [''P1'', ''Espessura: 10.00 mm  (Qtd: 01x)'', ''Peso Unitario: 78,500 Kg'',
            ''Peso Total: 78,500 Kg''])"
    using calc_text_lines_on(1) [OF flag w] by (simp add: name t weight_format)
qed

lemma prepare_example_nan_quantity:
  "prepare_data_for_dxf example_nan_quantity = Inr (Inr prepared_nan_quantity)"
  unfolding prepared_nan_quantity_def
proof (rule prepare_returns)
  let ?nums = "[(''width'', Fin 1000), (''height'', Fin 1000), (''part_quantity'', NaN)]"
  show "translate_keys example_nan_quantity = example_nan_quantity"
    by (simp add: example_nan_quantity_def all_eval)
  show "truthy (get_raw example_nan_quantity ''part_name'' RNone)"
    by (simp add: example_nan_quantity_def get_raw_def truthy_def)
  show "truthy (get_raw example_nan_quantity ''shape'' RNone)"
    by (simp add: example_nan_quantity_def get_raw_def truthy_def)
  show "coerce_numeric example_nan_quantity = ?nums"
    by (simp add: example_nan_quantity_def coerce_numeric_def numeric_keys_def
        numeric_default_def List.map_filter_simps parse_examples)
  show "calc_char_height (calc_max_dim ?nums) = Fin 35"
    by (simp add: calc_max_dim_def get_num_def py_max_three flt_def is_nan_def fval_def
        styles_of_1000)
  show "color_of example_nan_quantity ''contour_color'' 7 = Inr 7"
    by (rule colors_default) (simp_all add: example_nan_quantity_def)
  show "color_of example_nan_quantity ''holes_color'' 1 = Inr 1"
    by (rule colors_default) (simp_all add: example_nan_quantity_def)
  show "color_of example_nan_quantity ''text_color'' 2 = Inr 2"
    by (rule colors_default) (simp_all add: example_nan_quantity_def)
  show "flag_of example_nan_quantity ''include_dims'' = False"
    by (simp add: example_nan_quantity_def all_eval)
  show "py_max (Fin 15) [fmul (Fin 35) (Fin 3)] = Fin 105" by (rule styles_of_1000)
  show "fmul (fneg (Fin 35)) (Fin 2) = Fin (- 70)" by (rule styles_of_1000)
  have flag: "flag_of example_nan_quantity ''include_text_info''"
    by (simp add: example_nan_quantity_def all_eval)
  have area: "\<not> fle (calc_area example_nan_quantity ?nums) (Fin 0)"
    by (simp add: calc_area_def example_nan_quantity_def get_num_def weight_arith)
  have q: "py_int (get_num ?nums ''part_quantity'' (Fin 1)) = Inl ValueError"
    by (simp add: get_num_def weight_arith)
  note w = weight_lines_quantity [OF area q]
  have name: "py_upper (py_str (get_raw example_nan_quantity ''part_name'' (RStr []))) = ustr ''P1''"
    by (simp add: example_nan_quantity_def get_raw_def py_str_def py_upper_examples)
  show "calc_text_lines example_nan_quantity ?nums = Some (map ustr [''P1'', ''ERRO NO CALCULO DE PESO''])"
    using calc_text_lines_on(2) [OF flag w] by (simp add: error_lines_def name)
qed

theorem weight_text_lines_witness:
  "prepare_data_for_dxf example_weight = Inr (Inr prepared_weight)
   \<and> flag_of (entries prepared_weight) ''include_text_info''
   \<and> map_of (entries prepared_weight) ''shape'' = Some (RStr ''rectangle'')
   \<and> fmul (get_num (numeric prepared_weight) ''width'' (Fin 0))
          (get_num (numeric prepared_weight) ''height'' (Fin 0)) = Fin 1000000
   \<and> flt (Fin 0) (Fin 1000000)
   \<and> is_finite (get_num (numeric prepared_weight) ''part_quantity'' (Fin 1))
   \<and> fmul (spec_volume_m3 (Fin 1000000) (Fin 10)) (Fin 7850) = Fin (157 / 2)
   \<and> fmul (Fin (157 / 2)) (float_of_int 2) = Fin 157
   \<and> text_lines prepared_weight =
       Some (map ustr [''P1'', ''Espessura: 10.00 mm  (Qtd: 02x)'',
             ''Peso Unitario: '' @ spec_decimal_comma 3 (Fin (157 / 2)) @ '' Kg'',
             ''Peso Total: '' @ spec_decimal_comma 3 (Fin 157) @ '' Kg''])
   \<and> spec_decimal_comma 3 (Fin (157 / 2)) = ''78,500''
   \<and> spec_decimal_comma 3 (Fin 157) = ''157,000''
   \<and> map_option length (text_lines prepared_weight) = Some 4"
proof -
  have flag: "flag_of (entries prepared_weight) ''include_text_info''"
    by (simp add: prepared_weight_def example_weight_def all_eval)
  have shape: "map_of (entries prepared_weight) ''shape'' = Some (RStr ''rectangle'')"
    by (simp add: prepared_weight_def example_weight_def)
  have g: "get_num (numeric prepared_weight) ''width'' (Fin 0) = Fin 1000"
    "get_num (numeric prepared_weight) ''height'' (Fin 0) = Fin 1000"
    "get_num (numeric prepared_weight) ''material_thickness'' (Fin 0) = Fin 10"
    "get_num (numeric prepared_weight) ''material_density'' (Fin 7850) = Fin 7850"
    "get_num (numeric prepared_weight) ''part_quantity'' (Fin 1) = Fin 2"
    by (simp_all add: prepared_weight_def get_num_def)
  have area: "flt (Fin 0)
      (fmul (get_num (numeric prepared_weight) ''width'' (Fin 0))
         (get_num (numeric prepared_weight) ''height'' (Fin 0)))"
    by (simp add: g weight_arith)
  have fin: "is_finite (get_num (numeric prepared_weight) ''part_quantity'' (Fin 1))"
    by (simp add: g is_finite_def)
  note a = weight_text_lines [OF prepare_example_weight flag shape area fin]
  have unit: "fmul (spec_volume_m3 (Fin 1000000) (Fin 10)) (Fin 7850) = Fin (157 / 2)"
    by (simp add: spec_volume_m3_def weight_arith)
  have tr: "py_trunc (fval (Fin 2)) = 2" by (simp add: py_trunc_def fval_def)
  have name: "py_upper (py_str (get_raw (entries prepared_weight) ''part_name'' (RStr []))) = ustr ''P1''"
    by (simp add: prepared_weight_def example_weight_def get_raw_def py_str_def py_upper_examples)
  have lines: "text_lines prepared_weight =
       Some (map ustr [''P1'', ''Espessura: 10.00 mm  (Qtd: 02x)'',
             ''Peso Unitario: '' @ spec_decimal_comma 3 (Fin (157 / 2)) @ '' Kg'',
             ''Peso Total: '' @ spec_decimal_comma 3 (Fin 157) @ '' Kg''])"
    using a by (simp add: Let_def g weight_arith unit tr name weight_format)
  show ?thesis
    using prepare_example_weight flag shape fin unit lines a
    by (simp add: g weight_arith weight_format)
qed

text \<open>
  The claim as stated fails: with annotation enabled and the area positive, the quantity
  nan gives the two lines of the diagnostic, not four lines.
\<close>

theorem weight_text_lines_counterexample:
  "prepare_data_for_dxf example_nan_quantity = Inr (Inr prepared_nan_quantity)
   \<and> flag_of (entries prepared_nan_quantity) ''include_text_info''
   \<and> flt (Fin 0)
       (fmul (get_num (numeric prepared_nan_quantity) ''width'' (Fin 0))
          (get_num (numeric prepared_nan_quantity) ''height'' (Fin 0)))
   \<and> text_lines prepared_nan_quantity = Some (map ustr [''P1'', ''ERRO NO CALCULO DE PESO''])
   \<and> map_option length (text_lines prepared_nan_quantity) \<noteq> Some 4"
proof -
  have flag: "flag_of (entries prepared_nan_quantity) ''include_text_info''"
    by (simp add: prepared_nan_quantity_def example_nan_quantity_def all_eval)
  have area: "flt (Fin 0)
       (fmul (get_num (numeric prepared_nan_quantity) ''width'' (Fin 0))
          (get_num (numeric prepared_nan_quantity) ''height'' (Fin 0)))"
    by (simp add: prepared_nan_quantity_def get_num_def weight_arith)
  have lines: "text_lines prepared_nan_quantity = Some (map ustr [''P1'', ''ERRO NO CALCULO DE PESO''])"
    by (simp add: prepared_nan_quantity_def)
  show ?thesis
    using prepare_example_nan_quantity flag area by (simp add: lines)
qed

section \<open>Facts about the numeric fields\<close>

lemma map_of_map_filter_keys:
  assumes "distinct ks"
  shows "map_of (List.map_filter (\<lambda>k. map_option (\<lambda>v. (k, g k v)) (m k)) ks) k =
         (if k \<in> set ks then map_option (g k) (m k) else None)"
  using assms
proof (induction ks)
  case Nil
  then show ?case by (simp add: List.map_filter_simps)
next
  case (Cons a ks)
  then show ?case
    by (cases "m a") (auto simp: List.map_filter_simps)
qed

lemma map_of_coerce_numeric:
  "map_of (coerce_numeric es) k =
     (if k \<in> set numeric_keys
      then map_option (\<lambda>v. to_float v (numeric_default k)) (map_of es k) else None)"
proof -
  have "distinct numeric_keys" by (simp add: numeric_keys_def)
  from map_of_map_filter_keys [OF this, of "\<lambda>k v. to_float v (numeric_default k)" "map_of es" k]
  show ?thesis by (simp add: coerce_numeric_def)
qed

lemma prepare_raises_from_color:
  assumes "prepare_data_for_dxf raw = Inl e"
  shows "color_of (translate_keys raw) ''contour_color'' 7 = Inl e
    \<or> color_of (translate_keys raw) ''holes_color'' 1 = Inl e
    \<or> color_of (translate_keys raw) ''text_color'' 2 = Inl e"
  using assms unfolding prepare_data_for_dxf_def Let_def
  by (auto split: if_splits sum.splits)

lemma prepare_raises:
  assumes "translate_keys raw = es"
    and "truthy (get_raw es ''part_name'' RNone)" and "truthy (get_raw es ''shape'' RNone)"
    and "color_of es ''contour_color'' 7 = Inl e"
  shows "prepare_data_for_dxf raw = Inl e"
  using assms by (simp add: prepare_data_for_dxf_def Let_def)

lemma prepare_example_nan_color: "prepare_data_for_dxf example_nan_color = Inl ValueError"
proof (rule prepare_raises)
  show "translate_keys example_nan_color = example_nan_color"
    by (simp add: example_nan_color_def all_eval)
  show "truthy (get_raw example_nan_color ''part_name'' RNone)"
    by (simp add: example_nan_color_def get_raw_def truthy_def)
  show "truthy (get_raw example_nan_color ''shape'' RNone)"
    by (simp add: example_nan_color_def get_raw_def truthy_def)
  show "color_of example_nan_color ''contour_color'' 7 = Inl ValueError"
    by (simp add: example_nan_color_def color_of_def get_raw_def parse_examples py_int_def)
qed

lemma prepare_example_comma: "prepare_data_for_dxf example_comma = Inr (Inr prepared_comma)"
  unfolding prepared_comma_def
proof (rule prepare_returns)
  let ?nums = "[(''width'', Fin (21 / 2)), (''height'', Fin 0)]"
  show "translate_keys example_comma = example_comma" by (simp add: example_comma_def all_eval)
  show "truthy (get_raw example_comma ''part_name'' RNone)"
    by (simp add: example_comma_def get_raw_def truthy_def)
  show "truthy (get_raw example_comma ''shape'' RNone)"
    by (simp add: example_comma_def get_raw_def truthy_def)
  show "coerce_numeric example_comma = ?nums"
    by (simp add: example_comma_def coerce_numeric_def numeric_keys_def numeric_default_def
        List.map_filter_simps parse_examples)
  show "calc_char_height (calc_max_dim ?nums) = Fin 5" by (simp add: all_eval)
  show "color_of example_comma ''contour_color'' 7 = Inr 7"
    by (rule colors_default) (simp_all add: example_comma_def)
  show "color_of example_comma ''holes_color'' 1 = Inr 1"
    by (rule colors_default) (simp_all add: example_comma_def)
  show "color_of example_comma ''text_color'' 2 = Inr 2"
    by (rule colors_default) (simp_all add: example_comma_def)
  show "flag_of example_comma ''include_dims'' = False" by (simp add: example_comma_def all_eval)
  show "py_max (Fin 15) [fmul (Fin 5) (Fin 3)] = Fin 15" by (rule styles_of_100)
  show "fmul (fneg (Fin 5)) (Fin 2) = Fin (- 10)" by (rule styles_of_100)
  show "calc_text_lines example_comma ?nums = None" by (simp add: example_comma_def all_eval)
qed

subsection \<open>C2: numeric coercion\<close>

text \<open>
  Claim C2, as the code has it. For every numeric field (width, height, diameter,
  material_thickness, material_density, part_quantity) that is present in the record,
  coercion never raises: a comma is read as the decimal point (\<^verbatim>\<open>10,5\<close> coerces to 10.5),
  and a value that cannot be parsed, the empty string and \<^verbatim>\<open>None\<close> among them, yields
  the field's default, 1.0 for part_quantity and 0.0 for the others. A field that is
  absent is not coerced: it stays absent. An exception that leaves the preparation comes
  from one of the three colour fields, never from a numeric field.
\<close>

theorem numeric_coercion:
  assumes "prepare_data_for_dxf raw = Inr (Inr p)" and "k \<in> set numeric_keys"
  shows "map_of (numeric p) k =
           map_option (\<lambda>v. to_float v (numeric_default k)) (map_of (translate_keys raw) k)
    \<and> numeric_default k = (if k = ''part_quantity'' then Fin 1 else Fin 0)
    \<and> (\<forall>s d. to_float (RStr s) d =
          (case py_float (py_replace CHR '','' CHR ''.'' s) of None \<Rightarrow> d | Some x \<Rightarrow> x))
    \<and> (\<forall>d. to_float (RStr ''10,5'') d = Fin (21 / 2) \<and> to_float (RStr []) d = d
          \<and> to_float RNone d = d)
    \<and> (\<forall>r e. prepare_data_for_dxf r = Inl e \<longrightarrow>
          color_of (translate_keys r) ''contour_color'' 7 = Inl e
          \<or> color_of (translate_keys r) ''holes_color'' 1 = Inl e
          \<or> color_of (translate_keys r) ''text_color'' 2 = Inl e)"
proof -
  note f = prepare_fields [OF assms(1)]
  have a: "map_of (numeric p) k =
           map_option (\<lambda>v. to_float v (numeric_default k)) (map_of (translate_keys raw) k)"
    using assms(2) by (simp add: f(2) map_of_coerce_numeric)
  have b: "to_float (RStr s) d =
          (case py_float (py_replace CHR '','' CHR ''.'' s) of None \<Rightarrow> d | Some x \<Rightarrow> x)" for s d
    by (simp add: to_float_def py_str_def)
  show ?thesis
    using a b parse_examples(11-13) prepare_raises_from_color
    by (simp add: numeric_default_def)
qed

theorem numeric_coercion_witness:
  "prepare_data_for_dxf example_comma = Inr (Inr prepared_comma)
   \<and> ''width'' \<in> set numeric_keys \<and> ''height'' \<in> set numeric_keys
   \<and> map_of (translate_keys example_comma) ''width'' = Some (RStr ''10,5'')
   \<and> map_of (numeric prepared_comma) ''width'' = Some (Fin (21 / 2))
   \<and> map_of (translate_keys example_comma) ''height'' = Some (RStr [])
   \<and> map_of (numeric prepared_comma) ''height'' = Some (Fin 0)
   \<and> prepare_data_for_dxf example_nan_color = Inl ValueError
   \<and> color_of (translate_keys example_nan_color) ''contour_color'' 7 = Inl ValueError"
proof -
  have k: "''width'' \<in> set numeric_keys" "''height'' \<in> set numeric_keys"
    by (simp_all add: numeric_keys_def)
  note w = numeric_coercion [OF prepare_example_comma k(1)]
  note h = numeric_coercion [OF prepare_example_comma k(2)]
  have e: "translate_keys example_comma = example_comma"
    using prepare_fields(1) [OF prepare_example_comma] by (simp add: prepared_comma_def)
  have m: "map_of example_comma ''width'' = Some (RStr ''10,5'')"
    "map_of example_comma ''height'' = Some (RStr [])"
    by (simp_all add: example_comma_def)
  have t: "translate_keys example_nan_color = example_nan_color"
    by (simp add: example_nan_color_def all_eval)
  have c: "color_of (translate_keys example_nan_color) ''contour_color'' 7 = Inl ValueError"
    unfolding t
    by (simp add: example_nan_color_def color_of_def get_raw_def parse_examples py_int_def)
  have w1: "map_of (numeric prepared_comma) ''width'' =
      Some (to_float (RStr ''10,5'') (numeric_default ''width''))"
    using conjunct1 [OF w] by (simp only: e m option.map)
  have h1: "map_of (numeric prepared_comma) ''height'' =
      Some (to_float (RStr []) (numeric_default ''height''))"
    using conjunct1 [OF h] by (simp only: e m option.map)
  have v: "to_float (RStr ''10,5'') d = Fin (21 / 2)" "to_float (RStr []) d = d" for d
    using w by blast+
  have d: "numeric_default ''height'' = Fin 0" by (simp add: numeric_default_def)
  have "map_of (numeric prepared_comma) ''width'' = Some (Fin (21 / 2))"
    by (simp only: w1 v)
  moreover have "map_of (numeric prepared_comma) ''height'' = Some (Fin 0)"
    by (simp only: h1 v d)
  ultimately show ?thesis
    using prepare_example_comma k prepare_example_nan_color c by (simp add: e m)
qed

text \<open>
  The claim as stated fails for an absent key: with no material_density in the record
  the prepared record has none either, and the weight is computed with 7850, not 0.0.
\<close>

theorem numeric_coercion_counterexample:
  "prepare_data_for_dxf example_no_density = Inr (Inr prepared_no_density)
   \<and> map_of (numeric prepared_no_density) ''material_density'' = None
   \<and> map_of (numeric prepared_no_density) ''material_density'' \<noteq> Some (Fin 0)
   \<and> text_lines prepared_no_density =
       Some (map ustr [''P1'', ''Espessura: 10.00 mm  (Qtd: 01x)'', ''Peso Unitario: 78,500 Kg'',
             ''Peso Total: 78,500 Kg''])"
  using prepare_example_no_density by (simp add: prepared_no_density_def)

section \<open>Facts about a record of area zero\<close>

lemma texts_add_text_lines: "texts (add_text_lines st ls doc) = texts doc @ ls"
proof -
  have "concat (map (\<lambda>e. case e of Text t _ _ _ \<Rightarrow> [t] | _ \<Rightarrow> [])
          (map (\<lambda>(i, line). Text line ''TEXTO'' (char_height st)
              (fst (text_insert_point st),
               fsub (snd (text_insert_point st))
                 (fmul (float_of_int (int i)) (fmul (char_height st) (Fin (3 / 2))))))
            (enumerate 0 ls))) = map snd (enumerate 0 ls)"
    using concat_map_singleton [of snd "enumerate 0 ls"]
    by (simp add: comp_def case_prod_unfold)
  then show ?thesis
    by (simp add: add_text_lines_doc texts_def)
qed

lemma texts_add_rectangle_dims: "texts (add_rectangle_dims st w h doc) = texts doc"
  by (simp add: add_rectangle_dims_def add_entity_def texts_def)

lemma build_rectangle_texts:
  assumes "map_of (entries p) ''shape'' = Some (RStr ''rectangle'')"
    and "map_of (numeric p) ''width'' = Some w"
    and "map_of (numeric p) ''height'' = Some h"
    and "text_lines p = Some ls"
  shows "texts (fst (build_drawing p)) = ls"
    and "snd (build_drawing p) = Inr (sanitize (str_get (map_of (entries p) ''part_name'')) @ ''.dxf'')"
proof -
  have g: "get_text_lines p = TLines ls"
    using assms(4) by (simp add: get_text_lines_def)
  show "texts (fst (build_drawing p)) = ls"
    using assms(1-3)
    by (simp add: build_drawing_def Let_def g text_truthy_def iter_lines_def texts_add_text_lines
        texts_add_rectangle_dims)
       (simp add: texts_def add_entity_def new_layer_def new_dimstyle_def new_document_def
          add_text_lines_def)
  show "snd (build_drawing p) = Inr (sanitize (str_get (map_of (entries p) ''part_name'')) @ ''.dxf'')"
    using build_rectangle(3) [OF assms(1-3)] by (simp add: g iter_lines_def)
qed

lemma build_missing_width:
  assumes "map_of (entries p) ''shape'' = Some (RStr ''rectangle'')"
    and "map_of (numeric p) ''width'' = None"
  shows "snd (build_drawing p) = Inl (MissingParameter ''rectangle'' ''width'')"
  using assms by (simp add: build_drawing_def Let_def str_get_def py_str_def)

lemma styles_of_50:
  "calc_char_height (calc_max_dim [(''height'', Fin 50)]) = Fin 5"
  "calc_char_height (calc_max_dim [(''width'', Fin 0), (''height'', Fin 50)]) = Fin 5"
  "fmul (Fin 0) (Fin 50) = Fin 0" "fle (Fin 0) (Fin 0)"
  by (simp_all add: all_eval)

lemma prepare_example_no_width:
  "prepare_data_for_dxf example_no_width = Inr (Inr prepared_no_width)"
  unfolding prepared_no_width_def
proof (rule prepare_returns)
  let ?nums = "[(''height'', Fin 50)]"
  show "translate_keys example_no_width = example_no_width"
    by (simp add: example_no_width_def all_eval)
  show "truthy (get_raw example_no_width ''part_name'' RNone)"
    by (simp add: example_no_width_def get_raw_def truthy_def)
  show "truthy (get_raw example_no_width ''shape'' RNone)"
    by (simp add: example_no_width_def get_raw_def truthy_def)
  show "coerce_numeric example_no_width = ?nums"
    by (simp add: example_no_width_def coerce_numeric_def numeric_keys_def numeric_default_def
        List.map_filter_simps parse_examples)
  show "calc_char_height (calc_max_dim ?nums) = Fin 5" by (rule styles_of_50)
  show "color_of example_no_width ''contour_color'' 7 = Inr 7"
    by (rule colors_default) (simp_all add: example_no_width_def)
  show "color_of example_no_width ''holes_color'' 1 = Inr 1"
    by (rule colors_default) (simp_all add: example_no_width_def)
  show "color_of example_no_width ''text_color'' 2 = Inr 2"
    by (rule colors_default) (simp_all add: example_no_width_def)
  show "flag_of example_no_width ''include_dims'' = False"
    by (simp add: example_no_width_def all_eval)
  show "py_max (Fin 15) [fmul (Fin 5) (Fin 3)] = Fin 15" by (rule styles_of_100)
  show "fmul (fneg (Fin 5)) (Fin 2) = Fin (- 10)" by (rule styles_of_100)
  have flag: "flag_of example_no_width ''include_text_info''"
    by (simp add: example_no_width_def all_eval)
  have area: "fle (calc_area example_no_width ?nums) (Fin 0)"
    by (simp add: calc_area_def example_no_width_def get_num_def styles_of_50)
  have name: "py_upper (py_str (get_raw example_no_width ''part_name'' (RStr []))) = ustr ''P1''"
    by (simp add: example_no_width_def get_raw_def py_str_def py_upper_examples)
  show "calc_text_lines example_no_width ?nums = Some (map ustr [''P1'', ''ERRO NO CALCULO DE PESO''])"
    using calc_text_lines_on(2) [OF flag weight_lines_area [OF area]]
    by (simp add: error_lines_def name)
qed

lemma prepare_example_zero_width:
  "prepare_data_for_dxf example_zero_width = Inr (Inr prepared_zero_width)"
  unfolding prepared_zero_width_def
proof (rule prepare_returns)
  let ?nums = "[(''width'', Fin 0), (''height'', Fin 50)]"
  show "translate_keys example_zero_width = example_zero_width"
    by (simp add: example_zero_width_def all_eval)
  show "truthy (get_raw example_zero_width ''part_name'' RNone)"
    by (simp add: example_zero_width_def get_raw_def truthy_def)
  show "truthy (get_raw example_zero_width ''shape'' RNone)"
    by (simp add: example_zero_width_def get_raw_def truthy_def)
  show "coerce_numeric example_zero_width = ?nums"
    by (simp add: example_zero_width_def coerce_numeric_def numeric_keys_def numeric_default_def
        List.map_filter_simps parse_examples)
  show "calc_char_height (calc_max_dim ?nums) = Fin 5" by (rule styles_of_50)
  show "color_of example_zero_width ''contour_color'' 7 = Inr 7"
    by (rule colors_default) (simp_all add: example_zero_width_def)
  show "color_of example_zero_width ''holes_color'' 1 = Inr 1"
    by (rule colors_default) (simp_all add: example_zero_width_def)
  show "color_of example_zero_width ''text_color'' 2 = Inr 2"
    by (rule colors_default) (simp_all add: example_zero_width_def)
  show "flag_of example_zero_width ''include_dims'' = False"
    by (simp add: example_zero_width_def all_eval)
  show "py_max (Fin 15) [fmul (Fin 5) (Fin 3)] = Fin 15" by (rule styles_of_100)
  show "fmul (fneg (Fin 5)) (Fin 2) = Fin (- 10)" by (rule styles_of_100)
  have flag: "flag_of example_zero_width ''include_text_info''"
    by (simp add: example_zero_width_def all_eval)
  have area: "fle (calc_area example_zero_width ?nums) (Fin 0)"
    by (simp add: calc_area_def example_zero_width_def get_num_def styles_of_50)
  have name: "py_upper (py_str (get_raw example_zero_width ''part_name'' (RStr []))) = ustr ''P1''"
    by (simp add: example_zero_width_def get_raw_def py_str_def py_upper_examples)
  show "calc_text_lines example_zero_width ?nums = Some (map ustr [''P1'', ''ERRO NO CALCULO DE PESO''])"
    using calc_text_lines_on(2) [OF flag weight_lines_area [OF area]]
    by (simp add: error_lines_def name)
qed

subsection \<open>C4: the area is not positive\<close>

text \<open>
  Claim C4, as the code has it. Take a record that passes validation (part name and
  shape are there) and whose three colour fields convert to integers. Whenever
  annotation is requested and the computed area is at most 0, the preparation does not
  reject the record: it stores exactly the two lines of the diagnostic, the uppercased
  part name and \<^verbatim>\<open>ERRO NO CALCULO DE PESO\<close>. The drawing is then produced, with these two
  lines as its texts, when the shape is \<open>rectangle\<close>, width and height are both
  present and dimensions are not requested. (With dimensions requested the function
  goes on to ask ezdxf for aligned dimensions of a rectangle that has a side of length 0
  or of negative length; what ezdxf does with them is not decided by app.py.)
\<close>

theorem area_not_positive:
  assumes "truthy (get_raw (translate_keys raw) ''part_name'' RNone)"
    and "truthy (get_raw (translate_keys raw) ''shape'' RNone)"
    and "color_of (translate_keys raw) ''contour_color'' 7 = Inr cc"
    and "color_of (translate_keys raw) ''holes_color'' 1 = Inr hc"
    and "color_of (translate_keys raw) ''text_color'' 2 = Inr tc"
    and "flag_of (translate_keys raw) ''include_text_info''"
    and "fle (calc_area (translate_keys raw) (coerce_numeric (translate_keys raw))) (Fin 0)"
  shows "\<exists>p. prepare_data_for_dxf raw = Inr (Inr p)
    \<and> text_lines p =
        Some [py_upper (py_str (get_raw (translate_keys raw) ''part_name'' (RStr []))),
              ustr ''ERRO NO CALCULO DE PESO'']
    \<and> (map_of (entries p) ''shape'' = Some (RStr ''rectangle'')
        \<and> map_of (numeric p) ''width'' \<noteq> None \<and> map_of (numeric p) ''height'' \<noteq> None
        \<and> \<not> include_dims (styles p)
        \<longrightarrow> create_dxf_drawing p =
              Inr (fst (build_drawing p),
                   sanitize (str_get (map_of (entries p) ''part_name'')) @ ''.dxf'')
            \<and> texts (fst (build_drawing p)) =
                [py_upper (py_str (get_raw (translate_keys raw) ''part_name'' (RStr []))),
                 ustr ''ERRO NO CALCULO DE PESO''])"
proof -
  let ?es = "translate_keys raw"
  let ?lines = "[py_upper (py_str (get_raw ?es ''part_name'' (RStr []))),
                 ustr ''ERRO NO CALCULO DE PESO'']"
  have lines: "calc_text_lines ?es (coerce_numeric ?es) = Some ?lines"
    using calc_text_lines_on(2) [OF assms(6) weight_lines_area [OF assms(7)]]
    by (simp add: error_lines_def)
  note r = prepare_returns [OF refl assms(1,2) refl refl assms(3-5) refl refl refl lines]
  then obtain p where p: "prepare_data_for_dxf raw = Inr (Inr p)" and t: "text_lines p = Some ?lines"
    by simp
  have d: "create_dxf_drawing p =
              Inr (fst (build_drawing p),
                   sanitize (str_get (map_of (entries p) ''part_name'')) @ ''.dxf'')
            \<and> texts (fst (build_drawing p)) = ?lines"
    if "map_of (entries p) ''shape'' = Some (RStr ''rectangle'')"
      and "map_of (numeric p) ''width'' \<noteq> None" and "map_of (numeric p) ''height'' \<noteq> None"
      and "\<not> include_dims (styles p)"
  proof -
    from that obtain w h where w: "map_of (numeric p) ''width'' = Some w"
      and h: "map_of (numeric p) ''height'' = Some h" by auto
    note b = build_rectangle_texts [OF that(1) w h t]
    show ?thesis by (simp add: create_from_build b)
  qed
  from p t d show ?thesis by blast
qed

theorem area_not_positive_witness:
  "prepare_data_for_dxf example_zero_width = Inr (Inr prepared_zero_width)
   \<and> truthy (get_raw (translate_keys example_zero_width) ''part_name'' RNone)
   \<and> truthy (get_raw (translate_keys example_zero_width) ''shape'' RNone)
   \<and> color_of (translate_keys example_zero_width) ''contour_color'' 7 = Inr 7
   \<and> flag_of (translate_keys example_zero_width) ''include_text_info''
   \<and> fle (calc_area (translate_keys example_zero_width)
            (coerce_numeric (translate_keys example_zero_width))) (Fin 0)
   \<and> text_lines prepared_zero_width = Some (map ustr [''P1'', ''ERRO NO CALCULO DE PESO''])
   \<and> map_of (entries prepared_zero_width) ''shape'' = Some (RStr ''rectangle'')
   \<and> map_of (numeric prepared_zero_width) ''width'' = Some (Fin 0)
   \<and> map_of (numeric prepared_zero_width) ''height'' = Some (Fin 50)
   \<and> \<not> include_dims (styles prepared_zero_width)
   \<and> create_dxf_drawing prepared_zero_width = Inr (fst (build_drawing prepared_zero_width), ''P1.dxf'')
   \<and> texts (fst (build_drawing prepared_zero_width)) = map ustr [''P1'', ''ERRO NO CALCULO DE PESO'']"
proof -
  note f = prepare_fields [OF prepare_example_zero_width]
  have e: "translate_keys example_zero_width = example_zero_width"
    using f(1) by (simp add: prepared_zero_width_def)
  have n: "coerce_numeric example_zero_width = [(''width'', Fin 0), (''height'', Fin 50)]"
    using f(2) by (simp add: prepared_zero_width_def e)
  have v: "truthy (get_raw (translate_keys example_zero_width) ''part_name'' RNone)"
    "truthy (get_raw (translate_keys example_zero_width) ''shape'' RNone)"
    unfolding e by (simp_all add: example_zero_width_def get_raw_def truthy_def)
  have c: "color_of (translate_keys example_zero_width) ''contour_color'' 7 = Inr 7"
    "color_of (translate_keys example_zero_width) ''holes_color'' 1 = Inr 1"
    "color_of (translate_keys example_zero_width) ''text_color'' 2 = Inr 2"
    unfolding e by (rule colors_default; simp add: example_zero_width_def)+
  have flag: "flag_of (translate_keys example_zero_width) ''include_text_info''"
    unfolding e by (simp add: example_zero_width_def all_eval)
  have area: "fle (calc_area (translate_keys example_zero_width)
            (coerce_numeric (translate_keys example_zero_width))) (Fin 0)"
    unfolding e n by (simp add: calc_area_def example_zero_width_def get_num_def styles_of_50)
  from area_not_positive [OF v c flag area] prepare_example_zero_width
  have a: "text_lines prepared_zero_width =
        Some [py_upper (py_str (get_raw (translate_keys example_zero_width) ''part_name'' (RStr []))),
              ustr ''ERRO NO CALCULO DE PESO'']
    \<and> (map_of (entries prepared_zero_width) ''shape'' = Some (RStr ''rectangle'')
        \<and> map_of (numeric prepared_zero_width) ''width'' \<noteq> None
        \<and> map_of (numeric prepared_zero_width) ''height'' \<noteq> None
        \<and> \<not> include_dims (styles prepared_zero_width)
        \<longrightarrow> create_dxf_drawing prepared_zero_width =
              Inr (fst (build_drawing prepared_zero_width),
                   sanitize (str_get (map_of (entries prepared_zero_width) ''part_name'')) @ ''.dxf'')
            \<and> texts (fst (build_drawing prepared_zero_width)) =
                [py_upper (py_str (get_raw (translate_keys example_zero_width) ''part_name'' (RStr []))),
                 ustr ''ERRO NO CALCULO DE PESO''])"
    by auto
  have name: "py_upper (py_str (get_raw (translate_keys example_zero_width) ''part_name'' (RStr []))) = ustr ''P1''"
    unfolding e by (simp add: example_zero_width_def get_raw_def py_str_def py_upper_examples)
  have s: "map_of (entries prepared_zero_width) ''shape'' = Some (RStr ''rectangle'')"
    and w: "map_of (numeric prepared_zero_width) ''width'' = Some (Fin 0)"
    and h: "map_of (numeric prepared_zero_width) ''height'' = Some (Fin 50)"
    and pn: "str_get (map_of (entries prepared_zero_width) ''part_name'') = ''P1''"
    and nd: "\<not> include_dims (styles prepared_zero_width)"
    by (simp_all add: prepared_zero_width_def example_zero_width_def str_get_def py_str_def)
  from a have "create_dxf_drawing prepared_zero_width =
      Inr (fst (build_drawing prepared_zero_width), ''P1.dxf'')
    \<and> texts (fst (build_drawing prepared_zero_width)) = map ustr [''P1'', ''ERRO NO CALCULO DE PESO'']"
    by (simp add: s w h nd pn name kept_def is_word_def code_def)
  moreover from a have "text_lines prepared_zero_width = Some (map ustr [''P1'', ''ERRO NO CALCULO DE PESO''])"
    by (simp add: name)
  ultimately show ?thesis
    using prepare_example_zero_width v c(1) flag area s w h nd by blast
qed

text \<open>
  The claim as stated fails: a rectangle with no width has area 0 and gets the
  diagnostic, but its drawing is not produced.
\<close>

theorem area_not_positive_counterexample:
  "prepare_data_for_dxf example_no_width = Inr (Inr prepared_no_width)
   \<and> flag_of (entries prepared_no_width) ''include_text_info''
   \<and> fle (calc_area (entries prepared_no_width) (numeric prepared_no_width)) (Fin 0)
   \<and> text_lines prepared_no_width = Some (map ustr [''P1'', ''ERRO NO CALCULO DE PESO''])
   \<and> create_dxf_drawing prepared_no_width = Inl (MissingParameter ''rectangle'' ''width'')"
proof -
  have flag: "flag_of (entries prepared_no_width) ''include_text_info''"
    by (simp add: prepared_no_width_def example_no_width_def all_eval)
  have area: "fle (calc_area (entries prepared_no_width) (numeric prepared_no_width)) (Fin 0)"
    by (simp add: prepared_no_width_def calc_area_def example_no_width_def get_num_def
        styles_of_50)
  have s: "map_of (entries prepared_no_width) ''shape'' = Some (RStr ''rectangle'')"
    and w: "map_of (numeric prepared_no_width) ''width'' = None"
    and l: "text_lines prepared_no_width = Some (map ustr [''P1'', ''ERRO NO CALCULO DE PESO''])"
    by (simp_all add: prepared_no_width_def example_no_width_def)
  have "create_dxf_drawing prepared_no_width = Inl (MissingParameter ''rectangle'' ''width'')"
    by (simp add: create_from_build build_missing_width [OF s w])
  then show ?thesis
    using prepare_example_no_width flag area l by blast
qed

section \<open>The batch\<close>

lemma prepare_example_no_shape: "prepare_data_for_dxf example_no_shape = Inr (Inl MissingRequired)"
proof -
  have t: "translate_keys example_no_shape = example_no_shape"
    by (simp add: example_no_shape_def all_eval)
  show ?thesis
    unfolding prepare_data_for_dxf_def Let_def t
    by (simp add: example_no_shape_def get_raw_def truthy_def)
qed

lemma dict_update_empty: "dict_update d [] = d"
  by (simp add: dict_update_def)

lemma batch_step_examples:
  "batch_step [] st (i, example_P1) =
     Inr (st\<lparr>archive := archive st @ [(''P1.dxf'', fst (build_drawing prepared_P1))]\<rparr>)"
  "batch_step [] st (i, example_no_shape) =
     Inr (st\<lparr>log := log st @ [IgnoredRow (i + 2) MissingRequired]\<rparr>)"
  "batch_step [] st (i, example_nan_color) = Inl ValueError"
  by (simp_all add: batch_step_def dict_update_empty prepare_example_P1 draw_example_P1
      prepare_example_no_shape prepare_example_nan_color)

text \<open>
  The batch of the specification: five records, two of them with no shape, give three
  entries and two skips.
\<close>

lemma batch_of_five:
  "generate_dxf_batch
     [(0, example_P1), (1, example_no_shape), (2, example_P1), (3, example_no_shape),
      (4, example_P1)] [] =
   Inr \<lparr>archive = [(''P1.dxf'', fst (build_drawing prepared_P1)),
                  (''P1.dxf'', fst (build_drawing prepared_P1)),
                  (''P1.dxf'', fst (build_drawing prepared_P1))],
        log = [IgnoredRow 3 MissingRequired, IgnoredRow 5 MissingRequired]\<rparr>"
  by (simp add: generate_dxf_batch_def batch_step_examples)

text \<open>
  When the preparation raises for no row, the loop ends, and every row has either an
  entry of the archive or an entry of the log.
\<close>

lemma batch_step_counts:
  assumes "batch_step form st row = Inr st'"
  shows "length (archive st') + length (log st') = Suc (length (archive st) + length (log st))"
  using assms
  by (auto simp: batch_step_def split: sum.splits prod.splits)

lemma batch_step_no_exception:
  assumes "\<forall>e. prepare_data_for_dxf (dict_update (snd row) form) \<noteq> Inl e"
  shows "\<exists>st'. batch_step form st row = Inr st'"
  using assms
  by (auto simp: batch_step_def split: sum.splits prod.splits)

lemma batch_loop_no_exception:
  assumes "\<forall>row\<in>set rows. \<forall>e. prepare_data_for_dxf (dict_update (snd row) form) \<noteq> Inl e"
  shows "\<exists>st'. batch_loop form st rows = Inr st'
    \<and> length (archive st') + length (log st') = length (archive st) + length (log st) + length rows"
  using assms
proof (induction rows arbitrary: st)
  case Nil
  then show ?case by simp
next
  case (Cons row rows)
  then obtain st1 where s: "batch_step form st row = Inr st1"
    using batch_step_no_exception [of row form st] by auto
  from Cons obtain st' where "batch_loop form st1 rows = Inr st'"
    and "length (archive st') + length (log st') = length (archive st1) + length (log st1) + length rows"
    by (meson list.set_intros(2))
  then show ?case
    using s batch_step_counts [OF s] by simp
qed

subsection \<open>C9: an exception that leaves the batch\<close>

text \<open>
  Claim C9 says that the batch run never propagates an exception from a failing record.
  The code does not keep this: a colour field that is nan (or reads as nan or as an
  infinity) makes \<^verbatim>\<open>int\<close> raise inside the preparation, outside every \<^verbatim>\<open>try\<close>, and the
  exception leaves the loop. Here the second of two records has the contour colour nan.
\<close>

theorem batch_exception_propagates:
  "generate_dxf_batch [(0, example_P1), (1, example_nan_color)] [] = Inl ValueError"
  by (simp add: generate_dxf_batch_def batch_step_examples)

end
